theory Spec2Isabelle
  imports Complex_Main "HOL-Library.Log_Nat"
begin

section \<open>FlowMaker core engine (src/app.js)\<close>

text \<open>
  The file src/app.js holds two versions of the script, one after the other; the
  embedding follows the first (lines 1 to 745), whose \<^verbatim>\<open>createNode\<close> resolves default sizes
  and labels by type.

  The engine keeps its whole state in module-level variables (\<^verbatim>\<open>nodes\<close>, \<^verbatim>\<open>edges\<close>,
  \<^verbatim>\<open>historyStack\<close>, \<^verbatim>\<open>redoStack\<close>, \<^verbatim>\<open>state\<close>) and mutates them from event handlers.
  The embedding passes one record of that state through every function.

  Conventions of the embedding:
  \<^item> JavaScript numbers are IEEE binary64 values.  A finite one is modelled by the rational
    number it denotes, and every arithmetic operation of the source rounds its exact result
    to the nearest binary64 value, ties to even (\<open>fl\<close> below).  \<^verbatim>\<open>NaN\<close>, the infinities and the
    sign of zero are outside the model; the properties of the gestures are stated for
    events and states whose numbers are of ordinary size, where no operation overflows or
    divides by zero.
  \<^item> A string is the list of its code units, those below 256 being the ones the character
    type holds; \<^verbatim>\<open>String.prototype.toUpperCase\<close> is a built-in of the host and is passed in
    as an argument.
  \<^item> Node objects live in a store (\<open>heap\<close>) and the array \<^verbatim>\<open>nodes\<close> holds references,
    because \<^verbatim>\<open>state.targetItem\<close> aliases a node object and the gesture handlers mutate
    the object through that alias.  Edge objects are only ever reached through the array
    \<^verbatim>\<open>edges\<close>, so that array holds the edge values themselves.
  \<^item> A history entry is the text \<^verbatim>\<open>JSON.stringify({ nodes, edges })\<close>.  The text is modelled
    by the value it denotes (the list of node values and the list of edge values): two
    texts are equal exactly when these values are equal, and \<^verbatim>\<open>JSON.parse\<close> gives back
    fresh objects with these values.
  \<^item> \<^verbatim>\<open>render()\<close>, \<^verbatim>\<open>drawTempLine\<close> and the cursor and style assignments only write to the
    DOM; they change no variable of the engine and are left out.
  \<^item> \<^verbatim>\<open>Date.now()\<close> and the bounding rectangle of the canvas are read from the environment;
    they are passed in as arguments.
\<close>

subsection \<open>Configuration\<close>

definition GRID_SIZE :: rat where
  "GRID_SIZE = 10"

definition HISTORY_LIMIT :: nat where
  "HISTORY_LIMIT = 50"

subsection \<open>Numbers\<close>

text \<open>
  The exponent \<open>e\<close> with \<open>2\<^sup>e \<le> |q| < 2\<^sup>e\<^sup>+\<^sup>1\<close>, for \<open>q\<close> other than 0.
\<close>

definition binade :: "rat \<Rightarrow> int" where
  "binade q =
     (if 1 \<le> \<bar>q\<bar> then bitlen \<lfloor>\<bar>q\<bar>\<rfloor> - 1
      else
        let k = bitlen \<lfloor>1 / \<bar>q\<bar>\<rfloor> - 1
        in if \<bar>q\<bar> * 2 powi k = 1 then - k else - k - 1)"

definition round_half_even :: "rat \<Rightarrow> int" where
  "round_half_even v =
     (let f = \<lfloor>v\<rfloor>; d = v - of_int f in
      if d < 1 / 2 then f
      else if 1 / 2 < d then f + 1
      else if even f then f else f + 1)"

text \<open>
  Rounding to binary64: 53 significant bits, so the spacing of the values around \<open>q\<close> is
  \<open>2\<^sup>e\<^sup>-\<^sup>5\<^sup>2\<close> with \<open>e\<close> the exponent of \<open>q\<close>, and never less than \<open>2\<^sup>-\<^sup>1\<^sup>0\<^sup>7\<^sup>4\<close> (the subnormal
  values); ties go to the even significand.  A result of magnitude \<open>2\<^sup>1\<^sup>0\<^sup>2\<^sup>4\<close> or more is an
  infinity in JavaScript and outside the model.
\<close>

definition fl :: "rat \<Rightarrow> rat" where
  "fl q =
     (if q = 0 then 0
      else
        let u = 2 powi (max (binade q) (- 1022) - 52)
        in of_int (round_half_even (q / u)) * u)"

text \<open>The operators \<^verbatim>\<open>+\<close>, \<^verbatim>\<open>-\<close>, \<^verbatim>\<open>*\<close> and \<^verbatim>\<open>/\<close> on numbers.\<close>

definition js_plus :: "rat \<Rightarrow> rat \<Rightarrow> rat" where
  "js_plus a b = fl (a + b)"

definition js_minus :: "rat \<Rightarrow> rat \<Rightarrow> rat" where
  "js_minus a b = fl (a - b)"

definition js_times :: "rat \<Rightarrow> rat \<Rightarrow> rat" where
  "js_times a b = fl (a * b)"

definition js_divide :: "rat \<Rightarrow> rat \<Rightarrow> rat" where
  "js_divide a b = fl (a / b)"

text \<open>
  Numbers of ordinary size: with operands of magnitude at most \<open>2\<^sup>1\<^sup>0\<^sup>0\<close> and divisors of
  magnitude at least \<open>2\<^sup>-\<^sup>1\<^sup>0\<^sup>0\<close>, the few operations of a handler stay far below \<open>2\<^sup>1\<^sup>0\<^sup>2\<^sup>4\<close>.
\<close>

definition ordinary :: "rat \<Rightarrow> bool" where
  "ordinary q \<longleftrightarrow> \<bar>q\<bar> \<le> 2 ^ 100"

subsection \<open>Data\<close>

record node =
  n_id :: string
  n_type :: string
  n_x :: rat
  n_y :: rat
  n_width :: rat
  n_height :: rat
  n_label :: string

record edge =
  e_id :: string
  e_source :: string
  e_target :: string
  e_label :: string

datatype InteractionMode = IDLE | DRAGGING | RESIZING | CONNECTING | PANNING

datatype tool = SelectTool | ConnectorTool

datatype item_kind = NodeItem | EdgeItem

datatype error = TypeError

type_synonym ref = nat

text \<open>The text of a history entry, modelled by the node and edge values it denotes.\<close>

type_synonym snapshot = "node list \<times> edge list"

text \<open>
  What \<^verbatim>\<open>localStorage.getItem('flowmaker_pro_x_v11')\<close> holds: text on which \<^verbatim>\<open>JSON.parse\<close>
  or the field reads throw (\<open>Unparsable\<close>), or an object whose fields \<^verbatim>\<open>nodes\<close>, \<^verbatim>\<open>edges\<close>
  and \<^verbatim>\<open>projectName\<close> may each be missing.
\<close>

datatype saved = Unparsable | Parsed "node list option" "edge list option" "string option"

record app =
  heap :: "ref \<Rightarrow> node"
  nextRef :: ref
  nodes :: "ref list"
  edges :: "edge list"
  historyStack :: "snapshot list"
  redoStack :: "snapshot list"
  mode :: InteractionMode
  selectedId :: "string option"
  targetItem :: "ref option"
  activeTool :: tool
  zoom :: rat
  projectName :: string
  editingItem :: "(item_kind \<times> string) option"
  dragOffset :: "rat \<times> rat"
  nodeEditor_value :: string
  edgeEditor_value :: string
  localStorage :: "saved option"

text \<open>A pointer event together with the canvas rectangle read by \<^verbatim>\<open>getSVGCoords\<close>.\<close>

record pointer =
  clientX :: rat
  clientY :: rat
  rectLeft :: rat
  rectTop :: rat

text \<open>The node values of the array \<^verbatim>\<open>nodes\<close>, in array order.\<close>

definition node_values :: "app \<Rightarrow> node list" where
  "node_values s = map (heap s) (nodes s)"

subsection \<open>Coordinates and snapping\<close>

text \<open>
  The zoom controls: \<^verbatim>\<open>state.zoom *= 1.2\<close>, \<^verbatim>\<open>state.zoom *= 0.8\<close> and \<^verbatim>\<open>state.zoom = 1\<close>.
  The literals denote the binary64 values nearest to 12/10 and 8/10.
\<close>

definition zoom_in :: "app \<Rightarrow> app" where
  "zoom_in s = s\<lparr>zoom := js_times (zoom s) (fl (12 / 10))\<rparr>"

definition zoom_out :: "app \<Rightarrow> app" where
  "zoom_out s = s\<lparr>zoom := js_times (zoom s) (fl (8 / 10))\<rparr>"

definition reset_view :: "app \<Rightarrow> app" where
  "reset_view s = s\<lparr>zoom := 1\<rparr>"

text \<open>
  At zoom 0 the quotients below are 0 in HOL and not a finite number in JavaScript; the
  properties of the gestures are stated for a zoom of ordinary size.
\<close>

definition getSVGCoords :: "pointer \<Rightarrow> app \<Rightarrow> rat \<times> rat" where
  "getSVGCoords e s =
     (js_divide (js_minus (clientX e) (rectLeft e)) (zoom s),
      js_divide (js_minus (clientY e) (rectTop e)) (zoom s))"

text \<open>
  \<^verbatim>\<open>Math.round\<close> gives the integer nearest to its argument, the larger one of two equally
  near; the result is exact.
\<close>

definition Math_round :: "rat \<Rightarrow> rat" where
  "Math_round v = of_int \<lfloor>v + 1 / 2\<rfloor>"

definition snap :: "rat \<Rightarrow> rat" where
  "snap val = js_times (Math_round (js_divide val GRID_SIZE)) GRID_SIZE"

subsection \<open>Strings\<close>

text \<open>
  Decimal digits of a number, as a template literal prints \<^verbatim>\<open>Date.now()\<close>.
\<close>

fun decimal :: "nat \<Rightarrow> string" where
  "decimal n =
     (if n < 10 then [''0123456789'' ! n]
      else decimal (n div 10) @ [''0123456789'' ! (n mod 10)])"

declare decimal.simps [simp del]

text \<open>
  \<^verbatim>\<open>type.charAt(0).toUpperCase() + type.slice(1)\<close>, with the host's \<^verbatim>\<open>toUpperCase\<close> as the
  argument \<open>up\<close>: \<^verbatim>\<open>charAt(0)\<close> is the string of the first code unit, or the empty string,
  and \<^verbatim>\<open>slice(1)\<close> is the rest.
\<close>

definition capitalize :: "(string \<Rightarrow> string) \<Rightarrow> string \<Rightarrow> string" where
  "capitalize up ty = up (take 1 ty) @ drop 1 ty"

subsection \<open>History\<close>

definition stringify :: "app \<Rightarrow> snapshot" where
  "stringify s = (node_values s, edges s)"

definition persistToBrowser :: "app \<Rightarrow> app" where
  "persistToBrowser s =
     s\<lparr>localStorage :=
         Some (Parsed (Some (node_values s)) (Some (edges s)) (Some (projectName s)))\<rparr>"

definition saveHistory :: "app \<Rightarrow> app" where
  "saveHistory s =
     (let data = stringify s in
      if length (historyStack s) = 0 \<or> last (historyStack s) \<noteq> data then
        let pushed = historyStack s @ [data];
            bounded = (if length pushed > HISTORY_LIMIT then tl pushed else pushed)
        in persistToBrowser (s\<lparr>historyStack := bounded, redoStack := []\<rparr>)
      else s)"

text \<open>
  \<^verbatim>\<open>JSON.parse\<close> creates one fresh object per node of the parsed text; the result of
  \<open>JSON_parse_nodes\<close> has the array \<^verbatim>\<open>nodes\<close> refer to these new objects, in order.
\<close>

definition JSON_parse_nodes :: "node list \<Rightarrow> app \<Rightarrow> app" where
  "JSON_parse_nodes ns s =
     (let k = nextRef s in
      s\<lparr>heap := (\<lambda>r. if k \<le> r \<and> r < k + length ns then ns ! (r - k) else heap s r),
        nextRef := k + length ns,
        nodes := [k ..< k + length ns]\<rparr>)"

text \<open>\<^verbatim>\<open>applyState(JSON.parse(text))\<close> replaces the arrays \<^verbatim>\<open>nodes\<close> and \<^verbatim>\<open>edges\<close>.\<close>

definition applyState :: "snapshot \<Rightarrow> app \<Rightarrow> app" where
  "applyState d s = (JSON_parse_nodes (fst d) s)\<lparr>edges := snd d\<rparr>"

definition undo :: "app \<Rightarrow> app" where
  "undo s =
     (if length (historyStack s) \<le> 1 then s
      else
        let popped = last (historyStack s);
            s1 = s\<lparr>redoStack := redoStack s @ [popped],
                   historyStack := butlast (historyStack s)\<rparr>
        in applyState (last (historyStack s1)) s1)"

definition redo :: "app \<Rightarrow> app" where
  "redo s =
     (if length (redoStack s) = 0 then s
      else
        let next = last (redoStack s);
            s1 = s\<lparr>redoStack := butlast (redoStack s)\<rparr>;
            s2 = s1\<lparr>historyStack := historyStack s1 @ [stringify s1]\<rparr>
        in applyState next s2)"

subsection \<open>Graph model\<close>

text \<open>\<^verbatim>\<open>Array.prototype.findIndex\<close>, with \<open>None\<close> for the result \<^verbatim>\<open>-1\<close>.\<close>

fun findIndex :: "('a \<Rightarrow> bool) \<Rightarrow> 'a list \<Rightarrow> nat option" where
  "findIndex p [] = None"
| "findIndex p (v # vs) = (if p v then Some 0 else map_option Suc (findIndex p vs))"

text \<open>\<^verbatim>\<open>array.splice(i, 1)\<close>.\<close>

definition splice1 :: "nat \<Rightarrow> 'a list \<Rightarrow> 'a list" where
  "splice1 i vs = take i vs @ drop (Suc i) vs"

text \<open>
  The argument \<^verbatim>\<open>label\<close> is a string or \<^verbatim>\<open>null\<close>; \<^verbatim>\<open>!label\<close> holds for \<^verbatim>\<open>null\<close> and for
  the empty string.
\<close>

definition falsy :: "string option \<Rightarrow> bool" where
  "falsy l = (case l of None \<Rightarrow> True | Some t \<Rightarrow> t = [])"

definition createNode ::
  "(string \<Rightarrow> string) \<Rightarrow> string \<Rightarrow> rat \<Rightarrow> rat \<Rightarrow> string option \<Rightarrow> nat \<Rightarrow> app \<Rightarrow> ref \<times> app"
where
  "createNode up ty px py label now s =
     (let ident = ''node-'' @ decimal now;
          (w, h) =
            (if ty = ''decision'' then (160, 120)
             else if ty = ''lead-source'' then (180, 50)
             else if ty = ''database'' then (160, 70)
             else if ty = ''api'' then (180, 50)
             else if ty = ''user'' then (140, 60)
             else if ty = ''document'' then (140, 80)
             else if ty = ''cloud'' then (160, 100)
             else (160, 60));
          label' =
            (if falsy label then
               (if ty = ''lead-source'' then ''Trigger''
                else if ty = ''database'' then ''Database''
                else if ty = ''api'' then ''API Request''
                else if ty = ''user'' then ''User Input''
                else if ty = ''document'' then ''Document''
                else if ty = ''cloud'' then ''Cloud''
                else capitalize up ty)
             else the label);
          nd = \<lparr>n_id = ident, n_type = ty, n_x = snap px, n_y = snap py,
                n_width = w, n_height = h, n_label = label'\<rparr>;
          r = nextRef s
      in (r, s\<lparr>heap := (heap s)(r := nd), nextRef := Suc r, nodes := nodes s @ [r]\<rparr>))"

subsection \<open>Editing layer\<close>

definition closeEditors :: "app \<Rightarrow> app" where
  "closeEditors s =
     (let s1 =
        (case editingItem s of
           None \<Rightarrow> s
         | Some (kind, eid) \<Rightarrow>
             (case kind of
                NodeItem \<Rightarrow>
                  (case find (\<lambda>r. n_id (heap s r) = eid) (nodes s) of
                     None \<Rightarrow> s
                   | Some r \<Rightarrow>
                       saveHistory
                         (s\<lparr>heap := (heap s)(r := (heap s r)\<lparr>n_label := nodeEditor_value s\<rparr>)\<rparr>))
              | EdgeItem \<Rightarrow>
                  (case findIndex (\<lambda>e. e_id e = eid) (edges s) of
                     None \<Rightarrow> s
                   | Some i \<Rightarrow>
                       saveHistory
                         (s\<lparr>edges :=
                              (edges s)[i := (edges s ! i)\<lparr>e_label := edgeEditor_value s\<rparr>]\<rparr>))))
      in s1\<lparr>editingItem := None\<rparr>)"

text \<open>
  \<^verbatim>\<open>openNodeEditor(node)\<close> and \<^verbatim>\<open>openEdgeEditor(edge, midX, midY)\<close>; the positioning of
  the input element is DOM only.  \<^verbatim>\<open>edge.label || ""\<close> is the label itself for a string.
\<close>

definition openNodeEditor :: "ref \<Rightarrow> app \<Rightarrow> app" where
  "openNodeEditor r s =
     (if (case editingItem s of None \<Rightarrow> False | Some (kind, eid) \<Rightarrow> eid = n_id (heap s r))
      then s
      else
        let s1 = closeEditors s in
        s1\<lparr>selectedId := Some (n_id (heap s1 r)),
           editingItem := Some (NodeItem, n_id (heap s1 r)),
           nodeEditor_value := n_label (heap s1 r)\<rparr>)"

definition openEdgeEditor :: "edge \<Rightarrow> app \<Rightarrow> app" where
  "openEdgeEditor e s =
     (if (case editingItem s of None \<Rightarrow> False | Some (kind, eid) \<Rightarrow> eid = e_id e)
      then s
      else
        let s1 = closeEditors s in
        s1\<lparr>selectedId := Some (e_id e),
           editingItem := Some (EdgeItem, e_id e),
           edgeEditor_value := e_label e\<rparr>)"

text \<open>The Escape key of an editor: \<^verbatim>\<open>state.editingItem = null; closeEditors()\<close>.\<close>

definition escapeKey :: "app \<Rightarrow> app" where
  "escapeKey s = closeEditors (s\<lparr>editingItem := None\<rparr>)"

subsection \<open>Deletion\<close>

text \<open>\<^verbatim>\<open>!state.selectedId\<close> holds for \<^verbatim>\<open>null\<close> and for the empty string.\<close>

definition deleteSelected :: "app \<Rightarrow> app" where
  "deleteSelected s =
     (if falsy (selectedId s) then s
      else
        let sid = the (selectedId s);
            s1 =
              (case findIndex (\<lambda>r. n_id (heap s r) = sid) (nodes s) of
                 Some nodeIdx \<Rightarrow>
                   s\<lparr>nodes := splice1 nodeIdx (nodes s),
                     edges := filter (\<lambda>e. e_source e \<noteq> sid \<and> e_target e \<noteq> sid) (edges s)\<rparr>
               | None \<Rightarrow>
                   (case findIndex (\<lambda>e. e_id e = sid) (edges s) of
                      Some edgeIdx \<Rightarrow> s\<lparr>edges := splice1 edgeIdx (edges s)\<rparr>
                    | None \<Rightarrow> s))
        in saveHistory (closeEditors (s1\<lparr>selectedId := None\<rparr>)))"

subsection \<open>Interaction engine\<close>

definition startDragging :: "pointer \<Rightarrow> ref \<Rightarrow> app \<Rightarrow> app" where
  "startDragging e r s =
     (let (cx, cy) = getSVGCoords e s in
      s\<lparr>mode := DRAGGING, targetItem := Some r,
        dragOffset := (js_minus cx (n_x (heap s r)), js_minus cy (n_y (heap s r)))\<rparr>)"

definition startResizing :: "pointer \<Rightarrow> ref \<Rightarrow> app \<Rightarrow> app" where
  "startResizing e r s = s\<lparr>mode := RESIZING, targetItem := Some r\<rparr>"

definition startConnecting :: "pointer \<Rightarrow> ref \<Rightarrow> app \<Rightarrow> app" where
  "startConnecting e r s = s\<lparr>mode := CONNECTING, targetItem := Some r\<rparr>"

text \<open>
  The \<^verbatim>\<open>mousemove\<close> listener.  Reading a field of \<^verbatim>\<open>state.targetItem\<close> while it is
  \<^verbatim>\<open>null\<close> throws; \<^verbatim>\<open>drawTempLine\<close> reads \<^verbatim>\<open>s.x\<close> of the target and otherwise draws only.
\<close>

definition mousemove :: "pointer \<Rightarrow> app \<Rightarrow> error + app" where
  "mousemove e s =
     (if mode s = IDLE then Inr s
      else
        let (cx, cy) = getSVGCoords e s in
        if mode s = DRAGGING then
          (case targetItem s of
             None \<Rightarrow> Inl TypeError
           | Some r \<Rightarrow>
               let n1 = (heap s r)\<lparr>n_x := snap (js_minus cx (fst (dragOffset s)))\<rparr>;
                   n2 = n1\<lparr>n_y := snap (js_minus cy (snd (dragOffset s)))\<rparr>
               in Inr (s\<lparr>heap := (heap s)(r := n2)\<rparr>))
        else if mode s = RESIZING then
          (case targetItem s of
             None \<Rightarrow> Inl TypeError
           | Some r \<Rightarrow>
               let n1 = (heap s r)\<lparr>n_width := max 80 (snap (js_minus cx (n_x (heap s r))))\<rparr>;
                   n2 = n1\<lparr>n_height := max 40 (snap (js_minus cy (n_y n1)))\<rparr>
               in Inr (s\<lparr>heap := (heap s)(r := n2)\<rparr>))
        else if mode s = CONNECTING then
          (case targetItem s of None \<Rightarrow> Inl TypeError | Some r \<Rightarrow> Inr s)
        else Inr s)"

text \<open>
  \<^verbatim>\<open>finalizeConnection\<close>: the predicate of \<^verbatim>\<open>nodes.find\<close> reads \<^verbatim>\<open>state.targetItem.id\<close>, so
  with no target it throws on the first node it is applied to.
\<close>

definition hit :: "app \<Rightarrow> string \<Rightarrow> rat \<times> rat \<Rightarrow> ref \<Rightarrow> bool" where
  "hit s src c r =
     (let n = heap s r in
      n_id n \<noteq> src \<and>
      fst c > n_x n \<and> fst c < js_plus (n_x n) (n_width n) \<and>
      snd c > n_y n \<and> snd c < js_plus (n_y n) (n_height n))"

definition finalizeConnection :: "pointer \<Rightarrow> nat \<Rightarrow> app \<Rightarrow> error + app" where
  "finalizeConnection e now s =
     (let coords = getSVGCoords e s in
      case targetItem s of
        None \<Rightarrow> (if nodes s = [] then Inr s else Inl TypeError)
      | Some t \<Rightarrow>
          (case find (hit s (n_id (heap s t)) coords) (nodes s) of
             None \<Rightarrow> Inr s
           | Some target \<Rightarrow>
               Inr (saveHistory
                      (s\<lparr>edges := edges s @
                           [\<lparr>e_id = ''edge-'' @ decimal now,
                             e_source = n_id (heap s t),
                             e_target = n_id (heap s target),
                             e_label = []\<rparr>]\<rparr>))))"

definition mouseup :: "pointer \<Rightarrow> nat \<Rightarrow> app \<Rightarrow> error + app" where
  "mouseup e now s =
     (case (if mode s = CONNECTING then finalizeConnection e now s else Inr s) of
        Inl err \<Rightarrow> Inl err
      | Inr s1 \<Rightarrow>
          let s2 = (if mode s1 \<noteq> IDLE then saveHistory s1 else s1)
          in Inr (s2\<lparr>mode := IDLE, targetItem := None\<rparr>))"

text \<open>The \<^verbatim>\<open>drop\<close> handler of the palette: the label is \<^verbatim>\<open>null\<close>.\<close>

definition ondrop :: "(string \<Rightarrow> string) \<Rightarrow> pointer \<Rightarrow> string \<Rightarrow> nat \<Rightarrow> app \<Rightarrow> app" where
  "ondrop up e ty now s =
     (let (cx, cy) = getSVGCoords e s
      in saveHistory (snd (createNode up ty (js_minus cx 80) (js_minus cy 20) None now s)))"

subsection \<open>Initialization\<close>

text \<open>The module-level initializers; the store holds no object yet.\<close>

definition no_node :: node where
  "no_node = \<lparr>n_id = [], n_type = [], n_x = 0, n_y = 0, n_width = 0, n_height = 0, n_label = []\<rparr>"

definition initial :: "saved option \<Rightarrow> app" where
  "initial stored =
     \<lparr>heap = (\<lambda>r. no_node), nextRef = 0, nodes = [], edges = [],
      historyStack = [], redoStack = [],
      mode = IDLE, selectedId = None, targetItem = None, activeTool = SelectTool,
      zoom = 1, projectName = ''My Flowchart'', editingItem = None, dragOffset = (0, 0),
      nodeEditor_value = [], edgeEditor_value = [], localStorage = stored\<rparr>"

text \<open>\<^verbatim>\<open>v || d\<close> on a string: the default for a missing or empty string.\<close>

definition or_default :: "string option \<Rightarrow> string \<Rightarrow> string" where
  "or_default v d = (if falsy v then d else the v)"

definition init :: "(string \<Rightarrow> string) \<Rightarrow> nat \<Rightarrow> app \<Rightarrow> app" where
  "init up now s =
     (let s1 =
        (case localStorage s of
           None \<Rightarrow> s
         | Some Unparsable \<Rightarrow> s
         | Some (Parsed ns es pn) \<Rightarrow>
             (JSON_parse_nodes (case ns of None \<Rightarrow> [] | Some l \<Rightarrow> l) s)
               \<lparr>edges := (case es of None \<Rightarrow> [] | Some l \<Rightarrow> l),
                projectName := or_default pn ''My Flowchart''\<rparr>);
          s2 = (if length (nodes s1) = 0
                then snd (createNode up ''lead-source'' 320 150 (Some ''Start Source'') now s1)
                else s1)
      in saveHistory s2)"

subsection \<open>Runs of the engine used as examples\<close>

text \<open>
  The built-in \<^verbatim>\<open>toUpperCase\<close> as it acts on strings of ASCII characters: the letters a to z
  become A to Z and every other character stays.  The example runs apply it to ASCII
  strings only.
\<close>

definition toUpperCase_ascii :: "string \<Rightarrow> string" where
  "toUpperCase_ascii =
     map (\<lambda>c. case map_of (zip ''abcdefghijklmnopqrstuvwxyz'' ''ABCDEFGHIJKLMNOPQRSTUVWXYZ'') c of
                 Some u \<Rightarrow> u
               | None \<Rightarrow> c)"

text \<open>A pointer event on a canvas whose rectangle starts at the origin of the viewport.\<close>

definition at_origin :: "rat \<Rightarrow> rat \<Rightarrow> pointer" where
  "at_origin px py = \<lparr>clientX = px, clientY = py, rectLeft = 0, rectTop = 0\<rparr>"

text \<open>Start-up with nothing stored, at clock value 1000: the seeded node \<open>N0\<close> at (320, 150).\<close>

definition started :: app where
  "started = init toUpperCase_ascii 1000 (initial None)"

text \<open>One palette item of type \<^verbatim>\<open>process\<close> dropped at (500, 400), at clock value 2000.\<close>

definition dropped :: app where
  "dropped = ondrop toUpperCase_ascii (at_origin 500 400) ''process'' 2000 started"

text \<open>Then undo and redo.\<close>

definition redone :: app where
  "redone = redo (undo dropped)"

text \<open>
  Zoomed views: one click on zoom-in after the drop, two clicks on zoom-in after start-up,
  and one click on zoom-out after start-up.
\<close>

definition zoomed_in :: app where
  "zoomed_in = zoom_in dropped"

definition zoomed_in_twice :: app where
  "zoomed_in_twice = zoom_in (zoom_in started)"

definition zoomed_out :: app where
  "zoomed_out = zoom_out started"

text \<open>\<open>k\<close> palette drops after start-up, one per clock tick.\<close>

fun drops :: "nat \<Rightarrow> app" where
  "drops 0 = started"
| "drops (Suc k) = ondrop toUpperCase_ascii (at_origin 500 400) ''process'' (2000 + k) (drops k)"

text \<open>
  The states in which a call of \<^verbatim>\<open>saveHistory\<close> has just returned, when the undo stack
  is only ever changed by \<^verbatim>\<open>saveHistory\<close>: the first call finds the stack of the
  initializer, empty; between two calls every other variable may change in any way.
\<close>

inductive after_commits :: "app \<Rightarrow> bool" where
  first: "historyStack s = [] \<Longrightarrow> after_commits (saveHistory s)"
| later: "after_commits s \<Longrightarrow> historyStack s' = historyStack s \<Longrightarrow> after_commits (saveHistory s')"

text \<open>
  A stored project of two nodes joined by one edge, loaded at start-up; and the same
  project with the identifier of the first node (and the source of the edge) replaced by
  the empty string in the stored text.
\<close>

definition node_A :: node where
  "node_A = \<lparr>n_id = ''node-1'', n_type = ''process'', n_x = 100, n_y = 100,
             n_width = 160, n_height = 60, n_label = ''A''\<rparr>"

definition node_B :: node where
  "node_B = \<lparr>n_id = ''node-2'', n_type = ''decision'', n_x = 400, n_y = 300,
             n_width = 160, n_height = 120, n_label = ''B''\<rparr>"

definition edge_AB :: edge where
  "edge_AB = \<lparr>e_id = ''edge-3'', e_source = ''node-1'', e_target = ''node-2'', e_label = []\<rparr>"

definition linked :: app where
  "linked =
     init toUpperCase_ascii 1000 (initial (Some (Parsed (Some [node_A, node_B]) (Some [edge_AB]) (Some ''Demo''))))"

definition tampered :: app where
  "tampered =
     init toUpperCase_ascii 1000 (initial (Some (Parsed (Some [node_A\<lparr>n_id := []\<rparr>, node_B])
                                 (Some [edge_AB\<lparr>e_source := []\<rparr>]) None)))"

text \<open>The label editor opened on the edge of \<open>linked\<close>, with \<^verbatim>\<open>Yes\<close> typed into the input.\<close>

definition typing_Yes :: app where
  "typing_Yes = (openEdgeEditor edge_AB linked)\<lparr>edgeEditor_value := ''Yes''\<rparr>"

subsection \<open>Vocabulary of the properties\<close>

text \<open>
  Events and states whose numbers are of ordinary size: the event's coordinates, the zoom
  (also bounded away from 0), the recorded drag offset, and the box of every node of the
  diagram and of the target item.
\<close>

definition ordinary_event :: "pointer \<Rightarrow> bool" where
  "ordinary_event e \<longleftrightarrow>
     ordinary (clientX e) \<and> ordinary (clientY e) \<and> ordinary (rectLeft e) \<and> ordinary (rectTop e)"

definition ordinary_node :: "node \<Rightarrow> bool" where
  "ordinary_node n \<longleftrightarrow>
     ordinary (n_x n) \<and> ordinary (n_y n) \<and> ordinary (n_width n) \<and> ordinary (n_height n)"

definition ordinary_state :: "app \<Rightarrow> bool" where
  "ordinary_state s \<longleftrightarrow>
     1 / 2 ^ 100 \<le> \<bar>zoom s\<bar> \<and> ordinary (zoom s) \<and>
     ordinary (fst (dragOffset s)) \<and> ordinary (snd (dragOffset s)) \<and>
     list_all (\<lambda>r. ordinary_node (heap s r))
       (nodes s @ (case targetItem s of None \<Rightarrow> [] | Some r \<Rightarrow> [r]))"

text \<open>What identifies an edge and what it joins; the label is left out.\<close>

definition endpoints :: "edge \<Rightarrow> string \<times> string \<times> string" where
  "endpoints e = (e_id e, e_source e, e_target e)"

text \<open>
  The fixed default labels as a table from type to label, against which the conditional
  chain of \<^verbatim>\<open>createNode\<close> is compared.
\<close>

definition spec_default_labels :: "(string \<times> string) list" where
  "spec_default_labels =
     [(''lead-source'', ''Trigger''), (''database'', ''Database''), (''api'', ''API Request''),
      (''user'', ''User Input''), (''document'', ''Document''), (''cloud'', ''Cloud'')]"

section \<open>Properties\<close>

subsection \<open>Rounding is exact on whole numbers below \<open>2\<^sup>5\<^sup>3\<close>\<close>

lemma round_half_even_of_int: "round_half_even (of_int n) = n"
  by (simp add: round_half_even_def)

lemma binade_of_int:
  assumes "k \<noteq> 0"
  shows "0 \<le> binade (of_int k)" and "2 ^ nat (binade (of_int k)) \<le> \<bar>k\<bar>"
proof -
  have "1 \<le> \<bar>k\<bar>"
    using assms by linarith
  then have "(of_int 1 :: rat) \<le> of_int \<bar>k\<bar>"
    by (simp only: of_int_le_iff)
  then have a: "(1::rat) \<le> \<bar>of_int k\<bar>"
    by simp
  have f: "\<lfloor>\<bar>of_int k :: rat\<bar>\<rfloor> = \<bar>k\<bar>"
    by (metis floor_of_int of_int_abs)
  have b: "binade (of_int k) = bitlen \<bar>k\<bar> - 1"
    using a by (simp add: binade_def f)
  have p: "0 < \<bar>k\<bar>"
    using assms by simp
  from bitlen_bounds [OF p] show "2 ^ nat (binade (of_int k)) \<le> \<bar>k\<bar>"
    by (simp add: b)
  from p have "bitlen \<bar>k\<bar> \<noteq> 0"
    by (simp add: bitlen_eq_zero_iff)
  with bitlen_nonneg [of "\<bar>k\<bar>"] show "0 \<le> binade (of_int k)"
    by (simp add: b)
qed

lemma fl_of_int:
  assumes "\<bar>k\<bar> < 2 ^ 53"
  shows "fl (of_int k) = of_int k"
proof (cases "k = 0")
  case True
  then show ?thesis by (simp add: fl_def)
next
  case False
  define e where "e = binade (of_int k)"
  have e0: "0 \<le> e" and lo: "2 ^ nat e \<le> \<bar>k\<bar>"
    using binade_of_int [OF False] by (simp_all add: e_def)
  have "(2::int) ^ nat e < 2 ^ 53"
    using lo assms by linarith
  then have "nat e < 53"
    by (rule power_less_imp_less_exp [rotated]) simp
  then have e52: "e \<le> 52"
    by linarith
  define n where "n = nat (52 - e)"
  have u: "(2::rat) powi (e - 52) = 1 / 2 ^ n"
    using e52 by (simp add: n_def power_int_def nat_diff_distrib field_simps)
  have m: "max e (- 1022) = e"
    using e0 by simp
  have "of_int k / (1 / 2 ^ n) = (of_int (k * 2 ^ n) :: rat)"
    by simp
  then have "of_int (round_half_even (of_int k / (1 / 2 ^ n))) * (1 / 2 ^ n) = (of_int k :: rat)"
    by (simp only: round_half_even_of_int) simp
  then show ?thesis
    using False by (simp add: fl_def Let_def e_def [symmetric] m u)
qed

lemma fl_numeral: "\<bar>numeral w :: int\<bar> < 2 ^ 53 \<Longrightarrow> fl (numeral w) = numeral w"
  using fl_of_int [of "numeral w"] by simp

lemma fl_zero: "fl 0 = 0"
  by (simp add: fl_def)

lemma js_minus_of_int:
  "\<bar>a - b\<bar> < 2 ^ 53 \<Longrightarrow> js_minus (of_int a) (of_int b) = of_int (a - b)"
  using fl_of_int [of "a - b"] by (simp add: js_minus_def)

lemma js_divide_one: "js_divide q 1 = fl q"
  by (simp add: js_divide_def)

lemmas whole_numbers = js_plus_def js_minus_def js_times_def js_divide_def fl_numeral fl_zero

subsection \<open>Snapshots and the two stacks\<close>

lemma node_values_JSON_parse_nodes: "node_values (JSON_parse_nodes ns s) = ns"
  by (rule nth_equalityI) (simp_all add: node_values_def JSON_parse_nodes_def Let_def)

lemma stringify_applyState: "stringify (applyState d s) = d"
  using node_values_JSON_parse_nodes [of "fst d" s]
  by (simp add: stringify_def applyState_def node_values_def JSON_parse_nodes_def Let_def)

lemma historyStack_applyState: "historyStack (applyState d s) = historyStack s"
  by (simp add: applyState_def JSON_parse_nodes_def Let_def)

lemma redoStack_applyState: "redoStack (applyState d s) = redoStack s"
  by (simp add: applyState_def JSON_parse_nodes_def Let_def)

lemma stringify_saveHistory: "stringify (saveHistory s) = stringify s"
  by (simp add: saveHistory_def Let_def stringify_def persistToBrowser_def node_values_def)

lemma nodes_saveHistory: "nodes (saveHistory s) = nodes s"
  by (simp add: saveHistory_def Let_def persistToBrowser_def)

lemma edges_saveHistory: "edges (saveHistory s) = edges s"
  by (simp add: saveHistory_def Let_def persistToBrowser_def)

lemma heap_saveHistory: "heap (saveHistory s) = heap s"
  by (simp add: saveHistory_def Let_def persistToBrowser_def)

lemma historyStack_saveHistory:
  "historyStack (saveHistory s) =
     (if historyStack s = [] \<or> last (historyStack s) \<noteq> stringify s
      then (if HISTORY_LIMIT \<le> length (historyStack s)
            then tl (historyStack s) @ [stringify s]
            else historyStack s @ [stringify s])
      else historyStack s)"
  by (cases "historyStack s")
    (auto simp: saveHistory_def Let_def persistToBrowser_def HISTORY_LIMIT_def)

lemma top_after_saveHistory:
  "historyStack (saveHistory s) \<noteq> [] \<and> last (historyStack (saveHistory s)) = stringify s"
  by (auto simp: historyStack_saveHistory)

lemma saveHistory_same_top:
  "historyStack s \<noteq> [] \<Longrightarrow> last (historyStack s) = stringify s \<Longrightarrow> saveHistory s = s"
  by (simp add: saveHistory_def)

lemma saveHistory_twice: "saveHistory (saveHistory s) = saveHistory s"
  using top_after_saveHistory [of s]
  by (intro saveHistory_same_top) (simp_all add: stringify_saveHistory)

lemma saveHistory_keeps_bound:
  "length (historyStack s) \<le> HISTORY_LIMIT \<Longrightarrow>
   length (historyStack (saveHistory s)) \<le> HISTORY_LIMIT"
  by (cases "historyStack s") (auto simp: historyStack_saveHistory HISTORY_LIMIT_def)

lemma historyStack_undo:
  "2 \<le> length (historyStack s) \<Longrightarrow> historyStack (undo s) = butlast (historyStack s)"
  by (simp add: undo_def Let_def historyStack_applyState)

lemma redoStack_undo:
  "2 \<le> length (historyStack s) \<Longrightarrow>
   redoStack (undo s) = redoStack s @ [last (historyStack s)]"
  by (simp add: undo_def Let_def redoStack_applyState)

lemma stringify_undo:
  "2 \<le> length (historyStack s) \<Longrightarrow> stringify (undo s) = last (butlast (historyStack s))"
  by (simp add: undo_def Let_def stringify_applyState)

lemma historyStack_redo:
  "redoStack s \<noteq> [] \<Longrightarrow> historyStack (redo s) = historyStack s @ [stringify s]"
  by (simp add: redo_def Let_def historyStack_applyState stringify_def node_values_def)

lemma redoStack_redo:
  "redoStack s \<noteq> [] \<Longrightarrow> redoStack (redo s) = butlast (redoStack s)"
  by (simp add: redo_def Let_def redoStack_applyState)

lemma stringify_redo:
  "redoStack s \<noteq> [] \<Longrightarrow> stringify (redo s) = last (redoStack s)"
  by (simp add: redo_def Let_def stringify_applyState)

subsection \<open>Node creation and the palette drop\<close>

lemma historyStack_createNode:
  "historyStack (snd (createNode up ty px py l now s)) = historyStack s"
  by (simp add: createNode_def Let_def split: prod.splits)

lemma length_nodes_createNode:
  "length (nodes (snd (createNode up ty px py l now s))) = Suc (length (nodes s))"
  by (simp add: createNode_def Let_def split: prod.splits)

lemma createNode_changes_text:
  "stringify (snd (createNode up ty px py l now s)) \<noteq> stringify s"
proof
  assume "stringify (snd (createNode up ty px py l now s)) = stringify s"
  then have "length (nodes (snd (createNode up ty px py l now s))) = length (nodes s)"
    by (simp add: stringify_def node_values_def) (metis length_map)
  then show False by (simp add: length_nodes_createNode)
qed

lemma ondrop_eq:
  "ondrop up e ty now s =
     saveHistory (snd (createNode up ty (js_minus (fst (getSVGCoords e s)) 80)
                         (js_minus (snd (getSVGCoords e s)) 20) None now s))"
  by (simp add: ondrop_def case_prod_beta)

subsection \<open>The example runs, evaluated\<close>

lemma floor_numeral_div_rat:
  "\<lfloor>(numeral a :: rat) / numeral b\<rfloor> = numeral a div numeral b"
  using floor_divide_of_int_eq [of "numeral a" "numeral b", where ?'a = rat] by simp

lemmas eval_defs = init_def initial_def createNode_def saveHistory_def stringify_def
  node_values_def persistToBrowser_def snap_def Math_round_def GRID_SIZE_def
  HISTORY_LIMIT_def falsy_def decimal.simps Let_def ondrop_def getSVGCoords_def
  at_origin_def capitalize_def toUpperCase_ascii_def undo_def redo_def applyState_def
  JSON_parse_nodes_def floor_numeral_div_rat whole_numbers

lemma started_val:
  "stringify started =
     ([\<lparr>n_id = ''node-1000'', n_type = ''lead-source'', n_x = 320, n_y = 150,
        n_width = 180, n_height = 50, n_label = ''Start Source''\<rparr>], [])"
  "historyStack started = [stringify started]"
  "redoStack started = []"
  by (simp_all add: started_def eval_defs)

lemma dropped_val:
  "stringify dropped =
     ([\<lparr>n_id = ''node-1000'', n_type = ''lead-source'', n_x = 320, n_y = 150,
        n_width = 180, n_height = 50, n_label = ''Start Source''\<rparr>,
       \<lparr>n_id = ''node-2000'', n_type = ''process'', n_x = 420, n_y = 380,
        n_width = 160, n_height = 60, n_label = ''Process''\<rparr>], [])"
  "historyStack dropped = [stringify started, stringify dropped]"
  "redoStack dropped = []"
  by (simp_all add: dropped_def started_def eval_defs)

lemma at_origin_sel:
  "clientX (at_origin px py) = px" "clientY (at_origin px py) = py"
  "rectLeft (at_origin px py) = 0" "rectTop (at_origin px py) = 0"
  by (simp_all add: at_origin_def)

lemma started_store:
  "nodes started = [0]"
  "heap started 0 =
     \<lparr>n_id = ''node-1000'', n_type = ''lead-source'', n_x = 320, n_y = 150,
      n_width = 180, n_height = 50, n_label = ''Start Source''\<rparr>"
  "edges started = []"
  "zoom started = 1"
  by (simp_all add: started_def eval_defs)

lemma dropped_store:
  "nodes dropped = [0, Suc 0]"
  "heap dropped 0 =
     \<lparr>n_id = ''node-1000'', n_type = ''lead-source'', n_x = 320, n_y = 150,
      n_width = 180, n_height = 50, n_label = ''Start Source''\<rparr>"
  "heap dropped (Suc 0) =
     \<lparr>n_id = ''node-2000'', n_type = ''process'', n_x = 420, n_y = 380,
      n_width = 160, n_height = 60, n_label = ''Process''\<rparr>"
  "edges dropped = []"
  "zoom dropped = 1"
  by (simp_all add: dropped_def started_def eval_defs)

lemma linked_val:
  "nodes linked = [0, Suc 0]"
  "heap linked 0 = node_A"
  "heap linked (Suc 0) = node_B"
  "edges linked = [edge_AB]"
  "historyStack linked = [([node_A, node_B], [edge_AB])]"
  "editingItem linked = None"
  by (simp_all add: linked_def eval_defs)

lemma tampered_val:
  "nodes tampered = [0, Suc 0]"
  "heap tampered 0 = node_A\<lparr>n_id := []\<rparr>"
  "heap tampered (Suc 0) = node_B"
  "edges tampered = [edge_AB\<lparr>e_source := []\<rparr>]"
  by (simp_all add: tampered_def eval_defs)

lemma typing_Yes_val:
  "editingItem typing_Yes = Some (EdgeItem, ''edge-3'')"
  "edges typing_Yes = [edge_AB]"
  "edgeEditor_value typing_Yes = ''Yes''"
  "historyStack typing_Yes = [([node_A, node_B], [edge_AB])]"
  "node_values typing_Yes = [node_A, node_B]"
  by (simp_all add: typing_Yes_def openEdgeEditor_def closeEditors_def linked_val Let_def
      edge_AB_def node_values_def)

lemma after_commits_started: "after_commits started"
proof -
  have "historyStack (snd (createNode toUpperCase_ascii ''lead-source'' 320 150 (Some ''Start Source'') 1000
          (initial None))) = []"
    by (simp add: historyStack_createNode) (simp add: initial_def)
  from after_commits.first [OF this] show ?thesis
    by (simp add: started_def init_def Let_def) (simp add: initial_def)
qed

lemma after_commits_drops: "after_commits (drops k)"
proof (induction k)
  case 0
  show ?case by (simp add: after_commits_started)
next
  case (Suc k)
  have "historyStack (snd (createNode toUpperCase_ascii ''process''
          (js_minus (fst (getSVGCoords (at_origin 500 400) (drops k))) 80)
          (js_minus (snd (getSVGCoords (at_origin 500 400) (drops k))) 20) None (2000 + k)
          (drops k)))
        = historyStack (drops k)"
    by (rule historyStack_createNode)
  from after_commits.later [OF Suc this] show ?case
    by (simp add: ondrop_eq)
qed

lemma top_drops: "last (historyStack (drops k)) = stringify (drops k)"
proof (cases k)
  case 0
  then show ?thesis by (simp add: started_val)
next
  case (Suc j)
  then show ?thesis
    by (simp add: ondrop_eq top_after_saveHistory stringify_saveHistory)
qed

lemma length_historyStack_drops:
  "k < HISTORY_LIMIT \<Longrightarrow> length (historyStack (drops k)) = Suc k"
proof (induction k)
  case 0
  show ?case by (simp add: started_val)
next
  case (Suc k)
  let ?t = "snd (createNode toUpperCase_ascii ''process''
          (js_minus (fst (getSVGCoords (at_origin 500 400) (drops k))) 80)
          (js_minus (snd (getSVGCoords (at_origin 500 400) (drops k))) 20) None (2000 + k)
          (drops k))"
  have h: "historyStack ?t = historyStack (drops k)"
    by (rule historyStack_createNode)
  have n: "last (historyStack ?t) \<noteq> stringify ?t"
    using createNode_changes_text [THEN not_sym, of "drops k"]
    by (simp add: h top_drops)
  from Suc have "length (historyStack (drops k)) = Suc k" "Suc k < HISTORY_LIMIT"
    by simp_all
  then show ?case
    using n by (simp add: ondrop_eq historyStack_saveHistory h)
qed

subsection \<open>Undo followed by redo\<close>

text \<open>
  When the top of the undo stack is the text of the current diagram, as it is right after
  \<^verbatim>\<open>saveHistory\<close> and after \<^verbatim>\<open>undo\<close>, undo followed by redo gives the diagram back.
\<close>

lemma undo_then_redo_with_current_top:
  assumes "2 \<le> length (historyStack s)" and "last (historyStack s) = stringify s"
  shows "stringify (redo (undo s)) = stringify s"
  using assms by (simp add: stringify_redo redoStack_undo)

text \<open>
  Claim C1.  Undo followed at once by redo should give back the diagram as it was before
  the undo, in every reachable state whose undo stack holds at least two entries.
  The run start-up, one palette drop, undo, redo reaches a state with two entries on the
  undo stack and a diagram of two nodes; undo followed by redo in that state leaves the
  one-node diagram of start-up, because \<^verbatim>\<open>redo\<close> had pushed the text of the diagram it
  replaced, not of the one it restored.
\<close>

theorem undo_redo_loses_redone_diagram:
  "length (historyStack redone) = 2 \<and>
   stringify redone = stringify dropped \<and>
   stringify (redo (undo redone)) = stringify started \<and>
   stringify (redo (undo redone)) \<noteq> stringify redone"
  by (simp add: redone_def dropped_def started_def eval_defs)

subsection \<open>Commits\<close>

text \<open>
  Claim C3.  After any sequence of commits that starts from the empty undo stack of the
  initializer, the stack holds at most \<open>HISTORY_LIMIT\<close> = 50 entries; the next commit
  that pushes appends the new text and, exactly when the stack is full, discards the
  entry at the front, which is the one pushed first.
\<close>

theorem commit_bounds_undo_stack:
  assumes "after_commits s"
  shows "length (historyStack s) \<le> HISTORY_LIMIT \<and> HISTORY_LIMIT = 50 \<and>
    (\<forall>s'. historyStack s' = historyStack s \<and> last (historyStack s) \<noteq> stringify s' \<longrightarrow>
       historyStack (saveHistory s') =
         (if length (historyStack s) = HISTORY_LIMIT
          then tl (historyStack s) @ [stringify s']
          else historyStack s @ [stringify s']))"
proof -
  have b: "length (historyStack s) \<le> HISTORY_LIMIT"
    using assms
  proof (induction rule: after_commits.induct)
    case (first s)
    then show ?case by (simp add: historyStack_saveHistory HISTORY_LIMIT_def)
  next
    case (later s s')
    then show ?case by (simp add: saveHistory_keeps_bound)
  qed
  have n: "historyStack s \<noteq> []"
    using assms by (induction rule: after_commits.induct) (simp_all add: top_after_saveHistory)
  from b n show ?thesis
    by (auto simp: historyStack_saveHistory) (simp add: HISTORY_LIMIT_def)
qed

theorem commit_bounds_undo_stack_witness:
  "after_commits (drops 49) \<and>
   length (historyStack (drops 49)) = HISTORY_LIMIT \<and>
   historyStack (ondrop toUpperCase_ascii (at_origin 500 400) ''process'' 2049 (drops 49)) =
     tl (historyStack (drops 49)) @
       [stringify (ondrop toUpperCase_ascii (at_origin 500 400) ''process'' 2049 (drops 49))]"
proof -
  let ?t = "snd (createNode toUpperCase_ascii ''process''
          (js_minus (fst (getSVGCoords (at_origin 500 400) (drops 49))) 80)
          (js_minus (snd (getSVGCoords (at_origin 500 400) (drops 49))) 20) None 2049
          (drops 49))"
  have a: "after_commits (drops 49)"
    by (rule after_commits_drops)
  have l: "length (historyStack (drops 49)) = HISTORY_LIMIT"
    by (simp add: length_historyStack_drops HISTORY_LIMIT_def)
  have h: "historyStack ?t = historyStack (drops 49)"
    by (rule historyStack_createNode)
  have n: "last (historyStack (drops 49)) \<noteq> stringify ?t"
    using createNode_changes_text [THEN not_sym, of "drops 49"]
    by (simp add: top_drops)
  from commit_bounds_undo_stack [OF a] h n l
  have "historyStack (saveHistory ?t) = tl (historyStack (drops 49)) @ [stringify ?t]"
    by simp
  with a l show ?thesis
    by (simp add: ondrop_eq stringify_saveHistory)
qed

text \<open>
  Claim C4.  When the text of the current diagram equals the top of the undo stack,
  \<^verbatim>\<open>saveHistory\<close> changes nothing: no push, the redo stack and the stored project stay as
  they are.  Hence a second commit right after a commit changes nothing, and two commits
  in a row add at most one entry.
\<close>

theorem commit_collapses_unchanged:
  "(historyStack s \<noteq> [] \<and> last (historyStack s) = stringify s \<longrightarrow> saveHistory s = s) \<and>
   saveHistory (saveHistory s) = saveHistory s \<and>
   length (historyStack (saveHistory (saveHistory s))) \<le> Suc (length (historyStack s))"
  by (auto simp: saveHistory_same_top saveHistory_twice historyStack_saveHistory)

theorem commit_collapses_unchanged_witness:
  "historyStack started \<noteq> [] \<and> last (historyStack started) = stringify started \<and>
   saveHistory started = started \<and>
   historyStack (saveHistory (saveHistory started)) = [stringify started]"
  using commit_collapses_unchanged [of started]
  by (simp add: started_val)

text \<open>
  Claim C9.  A redo that restores a diagram different from the current one leaves the
  text of the diagram it replaced on top of the undo stack, not the text of the diagram
  it restored; a commit that follows without any change to the diagram therefore pushes
  one more entry.
\<close>

theorem redo_leaves_stale_top:
  assumes "redoStack s \<noteq> []" and "last (redoStack s) \<noteq> stringify s"
  shows "stringify (redo s) = last (redoStack s) \<and>
         historyStack (redo s) = historyStack s @ [stringify s] \<and>
         last (historyStack (redo s)) \<noteq> stringify (redo s) \<and>
         historyStack (saveHistory (redo s)) =
           (if HISTORY_LIMIT \<le> length (historyStack (redo s))
            then tl (historyStack (redo s)) else historyStack (redo s)) @
           [stringify (redo s)]"
  using assms by (simp add: stringify_redo historyStack_redo historyStack_saveHistory)

theorem redo_leaves_stale_top_witness:
  "redoStack (undo dropped) \<noteq> [] \<and>
   last (redoStack (undo dropped)) \<noteq> stringify (undo dropped) \<and>
   stringify (redo (undo dropped)) = stringify dropped \<and>
   historyStack (redo (undo dropped)) = [stringify started, stringify started] \<and>
   historyStack (saveHistory (redo (undo dropped))) =
     [stringify started, stringify started, stringify dropped]"
proof -
  have l: "2 \<le> length (historyStack dropped)"
    by (simp add: dropped_val)
  have r: "redoStack (undo dropped) \<noteq> []"
    by (simp add: redoStack_undo [OF l])
  have u: "stringify (undo dropped) = stringify started"
    by (simp add: stringify_undo [OF l] dropped_val)
  have d: "last (redoStack (undo dropped)) \<noteq> stringify (undo dropped)"
    by (simp add: redoStack_undo [OF l] u) (simp add: dropped_val started_val)
  from redo_leaves_stale_top [OF r d] r d show ?thesis
    by (simp add: redoStack_undo [OF l] historyStack_undo [OF l] u dropped_val
        HISTORY_LIMIT_def)
qed

subsection \<open>Array searches\<close>

lemma findIndex_Some_iff:
  "findIndex p vs = Some i \<longleftrightarrow> i < length vs \<and> p (vs ! i) \<and> (\<forall>j<i. \<not> p (vs ! j))"
proof (induction vs arbitrary: i)
  case Nil
  show ?case by simp
next
  case (Cons v vs)
  show ?case
  proof (cases "p v")
    case True
    then show ?thesis by (cases i) auto
  next
    case False
    show ?thesis
    proof (cases i)
      case 0
      with False show ?thesis by auto
    next
      case (Suc k)
      have "(\<forall>j<Suc k. \<not> p ((v # vs) ! j)) \<longleftrightarrow> (\<forall>j<k. \<not> p (vs ! j))"
        using False by (auto simp: less_Suc_eq_0_disj)
      with False Suc Cons.IH [of k] show ?thesis by auto
    qed
  qed
qed

lemma findIndex_None_iff: "findIndex p vs = None \<longleftrightarrow> (\<forall>v\<in>set vs. \<not> p v)"
  by (induction vs) auto

subsection \<open>Closing the label editor\<close>

lemma nodes_closeEditors: "nodes (closeEditors s) = nodes s"
  by (simp add: closeEditors_def Let_def nodes_saveHistory split: option.splits item_kind.splits)

lemma endpoints_relabel: "map endpoints (vs[i := (vs ! i)\<lparr>e_label := t\<rparr>]) = map endpoints vs"
proof (cases "i < length vs")
  case True
  then have "(map endpoints vs)[i := endpoints (vs ! i)] = map endpoints vs"
    by (metis list_update_id nth_map)
  then show ?thesis by (simp add: map_update endpoints_def)
next
  case False
  then show ?thesis by (simp add: list_update_beyond)
qed

lemma endpoints_closeEditors: "map endpoints (edges (closeEditors s)) = map endpoints (edges s)"
  by (simp add: closeEditors_def Let_def edges_saveHistory endpoints_relabel
      split: option.splits item_kind.splits)

lemma escapeKey_discards: "escapeKey s = s\<lparr>editingItem := None\<rparr>"
  by (simp add: escapeKey_def closeEditors_def)

text \<open>
  Claim C8.  Closing the editor while a session is open writes the text of the input into
  the label of the first node (for a node session) or first edge (for an edge session)
  with the session's identifier and then calls \<^verbatim>\<open>saveHistory\<close>; when no node or edge has
  that identifier, nothing is written and nothing is committed; in every case, also with
  no session open, the session is empty afterwards.
\<close>

theorem closeEditors_writes_and_commits:
  "editingItem (closeEditors s) = None \<and>
   (editingItem s = Some (NodeItem, eid) \<longrightarrow>
      ((\<exists>r\<in>set (nodes s). n_id (heap s r) = eid) \<longrightarrow>
         (\<exists>i<length (nodes s).
            n_id (heap s (nodes s ! i)) = eid \<and>
            (\<forall>j<i. n_id (heap s (nodes s ! j)) \<noteq> eid) \<and>
            n_label (heap (closeEditors s) (nodes s ! i)) = nodeEditor_value s \<and>
            closeEditors s =
              (saveHistory
                 (s\<lparr>heap := (heap s)(nodes s ! i :=
                       (heap s (nodes s ! i))\<lparr>n_label := nodeEditor_value s\<rparr>)\<rparr>))
              \<lparr>editingItem := None\<rparr>)) \<and>
      ((\<forall>r\<in>set (nodes s). n_id (heap s r) \<noteq> eid) \<longrightarrow>
         closeEditors s = s\<lparr>editingItem := None\<rparr>)) \<and>
   (editingItem s = Some (EdgeItem, eid) \<longrightarrow>
      ((\<exists>e\<in>set (edges s). e_id e = eid) \<longrightarrow>
         (\<exists>i<length (edges s).
            e_id (edges s ! i) = eid \<and>
            (\<forall>j<i. e_id (edges s ! j) \<noteq> eid) \<and>
            e_label (edges (closeEditors s) ! i) = edgeEditor_value s \<and>
            closeEditors s =
              (saveHistory
                 (s\<lparr>edges := (edges s)[i := (edges s ! i)\<lparr>e_label := edgeEditor_value s\<rparr>]\<rparr>))
              \<lparr>editingItem := None\<rparr>)) \<and>
      ((\<forall>e\<in>set (edges s). e_id e \<noteq> eid) \<longrightarrow>
         closeEditors s = s\<lparr>editingItem := None\<rparr>))"
proof (intro conjI impI)
  show "editingItem (closeEditors s) = None"
    by (simp add: closeEditors_def Let_def)
next
  assume k: "editingItem s = Some (NodeItem, eid)"
    and ex: "\<exists>r\<in>set (nodes s). n_id (heap s r) = eid"
  then obtain r where r: "find (\<lambda>r. n_id (heap s r) = eid) (nodes s) = Some r"
    by (cases "find (\<lambda>r. n_id (heap s r) = eid) (nodes s)") (auto simp: find_None_iff)
  then obtain i where i: "i < length (nodes s)" "n_id (heap s (nodes s ! i)) = eid"
      "r = nodes s ! i" "\<forall>j<i. n_id (heap s (nodes s ! j)) \<noteq> eid"
    by (auto simp: find_Some_iff)
  have c: "closeEditors s =
      (saveHistory (s\<lparr>heap := (heap s)(nodes s ! i :=
          (heap s (nodes s ! i))\<lparr>n_label := nodeEditor_value s\<rparr>)\<rparr>))\<lparr>editingItem := None\<rparr>"
    using k r i(3) by (simp add: closeEditors_def Let_def)
  have "n_label (heap (closeEditors s) (nodes s ! i)) = nodeEditor_value s"
    by (simp add: c heap_saveHistory)
  with i c show "\<exists>i<length (nodes s).
            n_id (heap s (nodes s ! i)) = eid \<and>
            (\<forall>j<i. n_id (heap s (nodes s ! j)) \<noteq> eid) \<and>
            n_label (heap (closeEditors s) (nodes s ! i)) = nodeEditor_value s \<and>
            closeEditors s =
              (saveHistory
                 (s\<lparr>heap := (heap s)(nodes s ! i :=
                       (heap s (nodes s ! i))\<lparr>n_label := nodeEditor_value s\<rparr>)\<rparr>))
              \<lparr>editingItem := None\<rparr>"
    by blast
next
  assume k: "editingItem s = Some (NodeItem, eid)"
    and no: "\<forall>r\<in>set (nodes s). n_id (heap s r) \<noteq> eid"
  then have "find (\<lambda>r. n_id (heap s r) = eid) (nodes s) = None"
    by (auto simp: find_None_iff)
  with k show "closeEditors s = s\<lparr>editingItem := None\<rparr>"
    by (simp add: closeEditors_def Let_def)
next
  assume k: "editingItem s = Some (EdgeItem, eid)"
    and ex: "\<exists>e\<in>set (edges s). e_id e = eid"
  then obtain i where f: "findIndex (\<lambda>e. e_id e = eid) (edges s) = Some i"
    by (cases "findIndex (\<lambda>e. e_id e = eid) (edges s)") (auto simp: findIndex_None_iff)
  then have i: "i < length (edges s)" "e_id (edges s ! i) = eid"
      "\<forall>j<i. e_id (edges s ! j) \<noteq> eid"
    by (auto simp: findIndex_Some_iff)
  have c: "closeEditors s =
      (saveHistory (s\<lparr>edges := (edges s)[i := (edges s ! i)\<lparr>e_label := edgeEditor_value s\<rparr>]\<rparr>))
        \<lparr>editingItem := None\<rparr>"
    using k f by (simp add: closeEditors_def Let_def)
  have "e_label (edges (closeEditors s) ! i) = edgeEditor_value s"
    using i(1) by (simp add: c edges_saveHistory)
  with i c show "\<exists>i<length (edges s).
            e_id (edges s ! i) = eid \<and>
            (\<forall>j<i. e_id (edges s ! j) \<noteq> eid) \<and>
            e_label (edges (closeEditors s) ! i) = edgeEditor_value s \<and>
            closeEditors s =
              (saveHistory
                 (s\<lparr>edges := (edges s)[i := (edges s ! i)\<lparr>e_label := edgeEditor_value s\<rparr>]\<rparr>))
              \<lparr>editingItem := None\<rparr>"
    by blast
next
  assume k: "editingItem s = Some (EdgeItem, eid)"
    and no: "\<forall>e\<in>set (edges s). e_id e \<noteq> eid"
  then have "findIndex (\<lambda>e. e_id e = eid) (edges s) = None"
    by (auto simp: findIndex_None_iff)
  with k show "closeEditors s = s\<lparr>editingItem := None\<rparr>"
    by (simp add: closeEditors_def Let_def)
qed

theorem closeEditors_writes_and_commits_witness:
  "editingItem typing_Yes = Some (EdgeItem, ''edge-3'') \<and>
   map e_id (edges typing_Yes) = [''edge-3''] \<and>
   edges (closeEditors typing_Yes) = [edge_AB\<lparr>e_label := ''Yes''\<rparr>] \<and>
   historyStack (closeEditors typing_Yes) =
     [([node_A, node_B], [edge_AB]), ([node_A, node_B], [edge_AB\<lparr>e_label := ''Yes''\<rparr>])] \<and>
   editingItem (closeEditors typing_Yes) = None \<and>
   editingItem (typing_Yes\<lparr>edges := []\<rparr>) = Some (EdgeItem, ''edge-3'') \<and>
   closeEditors (typing_Yes\<lparr>edges := []\<rparr>) = typing_Yes\<lparr>edges := [], editingItem := None\<rparr>"
proof -
  note t = closeEditors_writes_and_commits [of typing_Yes "''edge-3''"]
  have ex: "\<exists>e\<in>set (edges typing_Yes). e_id e = ''edge-3''"
    by (simp add: typing_Yes_val edge_AB_def)
  from t ex typing_Yes_val(1) obtain i where i: "i < length (edges typing_Yes)"
    "closeEditors typing_Yes =
       (saveHistory (typing_Yes\<lparr>edges := (edges typing_Yes)
           [i := (edges typing_Yes ! i)\<lparr>e_label := edgeEditor_value typing_Yes\<rparr>]\<rparr>))
        \<lparr>editingItem := None\<rparr>"
    by blast
  from i(1) have i0: "i = 0" by (simp add: typing_Yes_val)
  have c: "closeEditors typing_Yes =
       (saveHistory (typing_Yes\<lparr>edges := [edge_AB\<lparr>e_label := ''Yes''\<rparr>]\<rparr>))\<lparr>editingItem := None\<rparr>"
    using i(2) by (simp add: i0 typing_Yes_val)
  have h: "historyStack (closeEditors typing_Yes) =
     [([node_A, node_B], [edge_AB]), ([node_A, node_B], [edge_AB\<lparr>e_label := ''Yes''\<rparr>])]"
    using typing_Yes_val(5)
    by (simp add: c historyStack_saveHistory typing_Yes_val stringify_def node_values_def
        HISTORY_LIMIT_def edge_AB_def)
  have e: "edges (closeEditors typing_Yes) = [edge_AB\<lparr>e_label := ''Yes''\<rparr>]"
    by (simp add: c edges_saveHistory)
  have g: "closeEditors (typing_Yes\<lparr>edges := []\<rparr>) = typing_Yes\<lparr>edges := [], editingItem := None\<rparr>"
    using closeEditors_writes_and_commits [of "typing_Yes\<lparr>edges := []\<rparr>" "''edge-3''"]
    by (simp add: typing_Yes_val)
  from t h e g show ?thesis
    by (simp add: typing_Yes_val edge_AB_def)
qed

subsection \<open>Deleting the selected node\<close>

lemma deleteSelected_node:
  assumes "selectedId s = Some sid" and "sid \<noteq> []"
    and "findIndex (\<lambda>r. n_id (heap s r) = sid) (nodes s) = Some i"
  shows "nodes (deleteSelected s) = splice1 i (nodes s)"
    and "map endpoints (edges (deleteSelected s)) =
           map endpoints (filter (\<lambda>e. e_source e \<noteq> sid \<and> e_target e \<noteq> sid) (edges s))"
  using assms
  by (simp_all add: deleteSelected_def falsy_def Let_def nodes_saveHistory edges_saveHistory
      nodes_closeEditors endpoints_closeEditors)

text \<open>
  Claim C2 as stated, for every node identifier present in the diagram, fails for the
  empty identifier, which a stored project can carry: \<^verbatim>\<open>!state.selectedId\<close> holds for the
  empty string, so \<^verbatim>\<open>deleteSelected\<close> returns at once and both the node and the edge that
  starts at it stay.
\<close>

theorem deleteSelected_empty_id_keeps_node:
  "selectedId (tampered\<lparr>selectedId := Some []\<rparr>) = Some [] \<and>
   map n_id (node_values (tampered\<lparr>selectedId := Some []\<rparr>)) = [[], ''node-2''] \<and>
   map n_id (node_values (deleteSelected (tampered\<lparr>selectedId := Some []\<rparr>))) = [[], ''node-2''] \<and>
   map e_source (edges (deleteSelected (tampered\<lparr>selectedId := Some []\<rparr>))) = [[]]"
  by (simp add: deleteSelected_def falsy_def node_values_def tampered_val node_A_def
      node_B_def edge_AB_def)

text \<open>
  Claim C2, amended.  For every diagram and every non-empty node identifier present in
  it, deleting with that identifier selected removes the first node that carries it and
  every edge whose source or target is that identifier; the other edges stay, in order
  and with their identifiers and endpoints, and no edge of the result refers to the
  identifier.
\<close>

theorem deleteSelected_cascades:
  assumes "selectedId s = Some sid" and "sid \<noteq> []"
    and "sid \<in> n_id ` set (node_values s)"
  shows "(\<exists>i<length (nodes s).
            n_id (heap s (nodes s ! i)) = sid \<and> (\<forall>j<i. n_id (heap s (nodes s ! j)) \<noteq> sid) \<and>
            nodes (deleteSelected s) = take i (nodes s) @ drop (Suc i) (nodes s)) \<and>
         map endpoints (edges (deleteSelected s)) =
           map endpoints (filter (\<lambda>e. e_source e \<noteq> sid \<and> e_target e \<noteq> sid) (edges s)) \<and>
         (\<forall>e\<in>set (edges (deleteSelected s)). e_source e \<noteq> sid \<and> e_target e \<noteq> sid)"
proof -
  from assms(3) have "findIndex (\<lambda>r. n_id (heap s r) = sid) (nodes s) \<noteq> None"
    by (auto simp: findIndex_None_iff node_values_def)
  then obtain i where i: "findIndex (\<lambda>r. n_id (heap s r) = sid) (nodes s) = Some i"
    by auto
  note d = deleteSelected_node [OF assms(1,2) i]
  have "\<forall>p\<in>set (map endpoints (edges (deleteSelected s))). fst (snd p) \<noteq> sid \<and> snd (snd p) \<noteq> sid"
    unfolding d(2) by (auto simp: endpoints_def)
  then have "\<forall>e\<in>set (edges (deleteSelected s)). e_source e \<noteq> sid \<and> e_target e \<noteq> sid"
    by (auto simp: endpoints_def)
  with i d show ?thesis
    by (auto simp: findIndex_Some_iff splice1_def)
qed

theorem deleteSelected_cascades_witness:
  "selectedId (linked\<lparr>selectedId := Some ''node-2''\<rparr>) = Some ''node-2'' \<and>
   ''node-2'' \<noteq> [] \<and>
   map n_id (node_values (linked\<lparr>selectedId := Some ''node-2''\<rparr>)) = [''node-1'', ''node-2''] \<and>
   edges (linked\<lparr>selectedId := Some ''node-2''\<rparr>) = [edge_AB] \<and>
   edges (deleteSelected (linked\<lparr>selectedId := Some ''node-2''\<rparr>)) = []"
proof -
  let ?s = "linked\<lparr>selectedId := Some ''node-2''\<rparr>"
  have v: "map n_id (node_values ?s) = [''node-1'', ''node-2'']"
    by (simp add: node_values_def linked_val node_A_def node_B_def)
  have p: "''node-2'' \<in> n_id ` set (node_values ?s)"
    by (simp add: node_values_def linked_val node_A_def node_B_def)
  have "map endpoints (edges (deleteSelected ?s)) = []"
    using deleteSelected_cascades [of ?s "''node-2''", OF _ _ p]
    by (simp add: linked_val edge_AB_def)
  with v show ?thesis by (simp add: linked_val)
qed
subsection \<open>Values of the example runs\<close>

lemma snap_values:
  "snap 333 = 330" "snap 177 = 180" "snap 335 = 340" "snap (- 335) = - 330"
  "snap 346 = 350" "snap 204 = 200" "snap 10 = 10" "snap 213 = 210" "snap 97 = 100"
  by code_simp+

text \<open>
  The binary64 values nearest to 12/10 and 8/10, the zoom after two clicks on zoom-in, and
  the quotients and differences of the zoomed examples.
\<close>

lemma double_values:
  "fl (6 / 5) = 5404319552844595 / 4503599627370496"
  "fl (4 / 5) = 3602879701896397 / 4503599627370496"
  "fl (5404319552844595 / 4503599627370496) = 5404319552844595 / 4503599627370496"
  "fl (3602879701896397 / 4503599627370496) = 3602879701896397 / 4503599627370496"
  "js_times (5404319552844595 / 4503599627370496) (5404319552844595 / 4503599627370496) =
     3242591731706757 / 2251799813685248"
  by code_simp+

lemma js_times_one: "js_times 1 q = fl q"
  by (simp add: js_times_def)

lemma js_minus_zero: "js_minus q 0 = fl q"
  by (simp add: js_minus_def)

lemma zoom_values:
  "zoom zoomed_in = 5404319552844595 / 4503599627370496"
  "zoom zoomed_in_twice = 3242591731706757 / 2251799813685248"
  "zoom zoomed_out = 3602879701896397 / 4503599627370496"
  by (simp_all add: zoomed_in_def zoomed_in_twice_def zoomed_out_def zoom_in_def zoom_out_def
      dropped_store started_store js_times_one double_values)

lemma zoomed_values:
  "js_divide 504 (5404319552844595 / 4503599627370496) = 420"
  "js_divide 480 (5404319552844595 / 4503599627370496) = 400"
  "snap (js_minus (js_divide 745 (3242591731706757 / 2251799813685248))
           (js_minus (js_divide 565 (3242591731706757 / 2251799813685248)) 320)) = 440"
  "snap (js_minus (js_divide 288 (3242591731706757 / 2251799813685248))
           (js_minus (js_divide 216 (3242591731706757 / 2251799813685248)) 150)) = 200"
  "ordinary (js_minus (js_divide 565 (3242591731706757 / 2251799813685248)) 320)"
  "ordinary (js_minus (js_divide 216 (3242591731706757 / 2251799813685248)) 150)"
  "snap (js_minus (js_divide 332 (3602879701896397 / 4503599627370496)) 320) = 100"
  "snap (js_minus (js_divide 180 (3602879701896397 / 4503599627370496)) 150) = 80"
  by code_simp+

lemma zoom_sizes:
  "1 / 2 ^ 100 \<le> \<bar>5404319552844595 / 4503599627370496 :: rat\<bar>"
  "ordinary (5404319552844595 / 4503599627370496)"
  "1 / 2 ^ 100 \<le> \<bar>3242591731706757 / 2251799813685248 :: rat\<bar>"
  "ordinary (3242591731706757 / 2251799813685248)"
  "1 / 2 ^ 100 \<le> \<bar>3602879701896397 / 4503599627370496 :: rat\<bar>"
  "ordinary (3602879701896397 / 4503599627370496)"
  by code_simp+

lemma ordinary_at_origin:
  "ordinary px \<Longrightarrow> ordinary py \<Longrightarrow> ordinary_event (at_origin px py)"
  by (simp add: ordinary_event_def at_origin_sel ordinary_def)

lemma zoomed_in_store:
  "nodes zoomed_in = nodes dropped" "heap zoomed_in = heap dropped"
  "edges zoomed_in = edges dropped" "dragOffset zoomed_in = dragOffset dropped"
  by (simp_all add: zoomed_in_def zoom_in_def)

lemma dragOffset_examples: "dragOffset started = (0, 0)" "dragOffset dropped = (0, 0)"
  by (simp_all add: dropped_def started_def eval_defs)

lemma started_more: "dragOffset started = (0, 0)" "targetItem started = None"
  by (simp_all add: started_def eval_defs)

subsection \<open>Releasing a connect gesture\<close>

lemma mouseup_connecting:
  assumes "mode s = CONNECTING" and "targetItem s = Some t"
  shows "mouseup e now s =
     (case find (hit s (n_id (heap s t)) (getSVGCoords e s)) (nodes s) of
        None \<Rightarrow> Inr (saveHistory s\<lparr>mode := IDLE, targetItem := None\<rparr>)
      | Some target \<Rightarrow>
          Inr (saveHistory (s\<lparr>edges := edges s @
                 [\<lparr>e_id = ''edge-'' @ decimal now, e_source = n_id (heap s t),
                   e_target = n_id (heap s target), e_label = []\<rparr>]\<rparr>)
               \<lparr>mode := IDLE, targetItem := None\<rparr>))"
proof -
  have m: "mode (saveHistory u) = mode u" for u
    by (simp add: saveHistory_def Let_def persistToBrowser_def)
  show ?thesis
    using assms
    by (simp add: mouseup_def finalizeConnection_def Let_def m saveHistory_twice
        split: option.splits)
qed

text \<open>
  Claim C5.  On release of a connect gesture (mode \<open>CONNECTING\<close>, source node \<open>t\<close>), with
  numbers of ordinary size: when the release point, in model coordinates as
  \<^verbatim>\<open>getSVGCoords\<close> computes them, lies strictly inside the box of some node whose identifier
  differs from the source's, exactly one edge from the source to the first such node in
  array order, with empty label, is appended; when it lies inside no such node, the
  edges are unchanged.
\<close>

theorem release_connects_first_hit:
  assumes "mode s = CONNECTING" and "targetItem s = Some t"
    and "ordinary_state s" and "ordinary_event e"
  shows
    "((\<exists>r\<in>set (nodes s). hit s (n_id (heap s t)) (getSVGCoords e s) r) \<longrightarrow>
        (\<exists>i<length (nodes s).
           hit s (n_id (heap s t)) (getSVGCoords e s) (nodes s ! i) \<and>
           (\<forall>j<i. \<not> hit s (n_id (heap s t)) (getSVGCoords e s) (nodes s ! j)) \<and>
           (\<exists>s'. mouseup e now s = Inr s' \<and>
              edges s' = edges s @
                [\<lparr>e_id = ''edge-'' @ decimal now, e_source = n_id (heap s t),
                  e_target = n_id (heap s (nodes s ! i)), e_label = []\<rparr>]))) \<and>
     ((\<forall>r\<in>set (nodes s). \<not> hit s (n_id (heap s t)) (getSVGCoords e s) r) \<longrightarrow>
        (\<exists>s'. mouseup e now s = Inr s' \<and> edges s' = edges s))"
proof (cases "find (hit s (n_id (heap s t)) (getSVGCoords e s)) (nodes s)")
  case None
  then have "\<forall>r\<in>set (nodes s). \<not> hit s (n_id (heap s t)) (getSVGCoords e s) r"
    by (auto simp: find_None_iff)
  with None show ?thesis
    by (auto simp: mouseup_connecting [OF assms(1,2)] edges_saveHistory)
next
  case (Some r)
  then obtain i where i: "i < length (nodes s)"
      "hit s (n_id (heap s t)) (getSVGCoords e s) (nodes s ! i)"
      "r = nodes s ! i" "\<forall>j<i. \<not> hit s (n_id (heap s t)) (getSVGCoords e s) (nodes s ! j)"
    by (auto simp: find_Some_iff)
  have "\<exists>s'. mouseup e now s = Inr s' \<and>
              edges s' = edges s @
                [\<lparr>e_id = ''edge-'' @ decimal now, e_source = n_id (heap s t),
                  e_target = n_id (heap s (nodes s ! i)), e_label = []\<rparr>]"
    using Some i(3) by (simp add: mouseup_connecting [OF assms(1,2)] edges_saveHistory)
  with i show ?thesis
    using nth_mem by blast
qed

theorem release_connects_first_hit_witness:
  "mode (startConnecting (at_origin 400 170) 0 dropped) = CONNECTING \<and>
   targetItem (startConnecting (at_origin 400 170) 0 dropped) = Some 0 \<and>
   ordinary_state (startConnecting (at_origin 400 170) 0 dropped) \<and>
   ordinary_event (at_origin 500 400) \<and> ordinary_event (at_origin 900 900) \<and>
   (\<exists>s'. mouseup (at_origin 500 400) 3000 (startConnecting (at_origin 400 170) 0 dropped) = Inr s' \<and>
      edges s' = [\<lparr>e_id = ''edge-3000'', e_source = ''node-1000'', e_target = ''node-2000'',
                   e_label = []\<rparr>]) \<and>
   (\<exists>s'. mouseup (at_origin 900 900) 3000 (startConnecting (at_origin 400 170) 0 dropped) = Inr s' \<and>
      edges s' = []) \<and>
   mode (startConnecting (at_origin 480 204) 0 zoomed_in) = CONNECTING \<and>
   targetItem (startConnecting (at_origin 480 204) 0 zoomed_in) = Some 0 \<and>
   ordinary_state (startConnecting (at_origin 480 204) 0 zoomed_in) \<and>
   ordinary_event (at_origin 504 480) \<and>
   getSVGCoords (at_origin 504 480) (startConnecting (at_origin 480 204) 0 zoomed_in) = (420, 400) \<and>
   (\<exists>s'. mouseup (at_origin 504 480) 3000 (startConnecting (at_origin 480 204) 0 zoomed_in) = Inr s' \<and>
      edges s' = [])"
proof -
  let ?c = "startConnecting (at_origin 400 170) 0 dropped"
  let ?z = "startConnecting (at_origin 480 204) 0 zoomed_in"
  have m: "mode ?c = CONNECTING" "targetItem ?c = Some 0"
    by (simp_all add: startConnecting_def)
  have st: "nodes ?c = [0, Suc 0]" "heap ?c = heap dropped" "edges ?c = []" "zoom ?c = 1"
    by (simp_all add: startConnecting_def dropped_store)
  have oc: "ordinary_state ?c"
    by (simp add: ordinary_state_def ordinary_node_def ordinary_def st m dropped_store
        startConnecting_def dragOffset_examples)
  have oe: "ordinary_event (at_origin 500 400)" "ordinary_event (at_origin 900 900)"
    "ordinary_event (at_origin 504 480)"
    by (simp_all add: ordinary_at_origin ordinary_def)
  have c1: "getSVGCoords (at_origin 500 400) ?c = (500, 400)"
    and c2: "getSVGCoords (at_origin 900 900) ?c = (900, 900)"
    by (simp_all add: getSVGCoords_def at_origin_sel st whole_numbers)
  have h1: "hit ?c (n_id (heap ?c 0)) (getSVGCoords (at_origin 500 400) ?c) (Suc 0)"
    and h0: "\<not> hit ?c (n_id (heap ?c 0)) (getSVGCoords (at_origin 500 400) ?c) 0"
    by (simp_all add: hit_def c1 st dropped_store whole_numbers)
  have n: "\<forall>r\<in>set (nodes ?c). \<not> hit ?c (n_id (heap ?c 0)) (getSVGCoords (at_origin 900 900) ?c) r"
    by (simp add: hit_def c2 st dropped_store whole_numbers)
  have e: "\<exists>r\<in>set (nodes ?c). hit ?c (n_id (heap ?c 0)) (getSVGCoords (at_origin 500 400) ?c) r"
    using h1 by (simp add: st)
  from release_connects_first_hit [OF m oc oe(1), of 3000] e
  obtain i s' where i: "i < length (nodes ?c)"
      "hit ?c (n_id (heap ?c 0)) (getSVGCoords (at_origin 500 400) ?c) (nodes ?c ! i)"
      "mouseup (at_origin 500 400) 3000 ?c = Inr s'"
      "edges s' = edges ?c @ [\<lparr>e_id = ''edge-'' @ decimal 3000, e_source = n_id (heap ?c 0),
                  e_target = n_id (heap ?c (nodes ?c ! i)), e_label = []\<rparr>]"
    by blast
  from i(1,2) h0 have "i = Suc 0"
    by (cases i) (auto simp: st)
  with i(4) have "edges s' = [\<lparr>e_id = ''edge-3000'', e_source = ''node-1000'',
      e_target = ''node-2000'', e_label = []\<rparr>]"
    by (simp add: st dropped_store decimal.simps)
  with i(3) have a: "\<exists>s'. mouseup (at_origin 500 400) 3000 ?c = Inr s' \<and>
      edges s' = [\<lparr>e_id = ''edge-3000'', e_source = ''node-1000'', e_target = ''node-2000'',
                   e_label = []\<rparr>]"
    by blast
  from release_connects_first_hit [OF m oc oe(2), of 3000] n
  have b: "\<exists>s'. mouseup (at_origin 900 900) 3000 ?c = Inr s' \<and> edges s' = []"
    by (simp add: st)
  have mz: "mode ?z = CONNECTING" "targetItem ?z = Some 0"
    by (simp_all add: startConnecting_def)
  have sz: "nodes ?z = [0, Suc 0]" "heap ?z = heap dropped" "edges ?z = []"
    "zoom ?z = 5404319552844595 / 4503599627370496" "dragOffset ?z = (0, 0)"
    by (simp_all add: startConnecting_def zoomed_in_store dropped_store zoom_values
        dragOffset_examples)
  have oz: "ordinary_state ?z"
    using zoom_sizes(1,2)
    by (simp add: ordinary_state_def ordinary_node_def sz mz dropped_store)
      (simp add: ordinary_def)
  have cz: "getSVGCoords (at_origin 504 480) ?z = (420, 400)"
    by (simp add: getSVGCoords_def at_origin_sel sz js_minus_zero fl_numeral zoomed_values)
  have nz: "\<forall>r\<in>set (nodes ?z). \<not> hit ?z (n_id (heap ?z 0)) (getSVGCoords (at_origin 504 480) ?z) r"
    by (simp add: hit_def cz sz dropped_store)
  from release_connects_first_hit [OF mz oz oe(3), of 3000] nz
  have c: "\<exists>s'. mouseup (at_origin 504 480) 3000 ?z = Inr s' \<and> edges s' = []"
    by (simp add: sz)
  from m oc oe a b mz oz cz c show ?thesis
    by blast
qed

subsection \<open>Dragging and resizing\<close>

lemma drag_whole_numbers:
  fixes a l :: int
  assumes "\<bar>a\<bar> \<le> 2 ^ 40" and "\<bar>l\<bar> \<le> 2 ^ 40" and "\<bar>p\<bar> \<le> 2 ^ 40" and "\<bar>d\<bar> \<le> 2 ^ 40"
  shows "js_minus (js_divide (js_minus (of_int a + of_int d) (of_int l)) 1)
           (js_minus (js_divide (js_minus (of_int a) (of_int l)) 1) (of_int p)) = of_int (p + d)"
proof -
  have b: "(2::int) ^ 40 * 4 < 2 ^ 53" by simp
  have s1: "js_minus (of_int a) (of_int l) = of_int (a - l)"
    using assms b by (intro js_minus_of_int) linarith
  have s2: "js_minus (of_int a + of_int d) (of_int l) = of_int (a + d - l)"
    using assms b js_minus_of_int [of "a + d" l] by (simp add: abs_if split: if_splits)
  have f1: "fl (of_int (a - l)) = of_int (a - l)"
    using assms b by (intro fl_of_int) linarith
  have f2: "fl (of_int (a + d - l)) = of_int (a + d - l)"
    using assms b by (intro fl_of_int) linarith
  have s3: "js_minus (of_int (a - l)) (of_int p) = of_int (a - l - p)"
    using assms b by (intro js_minus_of_int) linarith
  have s4: "js_minus (of_int (a + d - l)) (of_int (a - l - p)) = of_int (a + d - l - (a - l - p))"
    using assms b by (intro js_minus_of_int) linarith
  show ?thesis
    unfolding s2 s1 js_divide_one f2 f1 s3 s4 by simp
qed

text \<open>
  Claim C6.  \<^verbatim>\<open>startDragging\<close> records the offset of the pointer, in model coordinates,
  from the origin of the node; every pointer move in mode \<open>DRAGGING\<close>, with numbers of
  ordinary size, sets the position of the target to the snapped difference of the pointer
  position and that offset, and changes nothing else, so the same holds at the next move.
  A node at (320, 150) dragged by (13, 27) at zoom 1, from any whole-number pointer
  position, ends at (330, 180); halves round upwards.
\<close>

theorem drag_move_snaps_position:
  "dragOffset (startDragging e0 r s) =
     (js_minus (fst (getSVGCoords e0 s)) (n_x (heap s r)),
      js_minus (snd (getSVGCoords e0 s)) (n_y (heap s r))) \<and>
   mode (startDragging e0 r s) = DRAGGING \<and> targetItem (startDragging e0 r s) = Some r \<and>
   heap (startDragging e0 r s) = heap s \<and>
   (mode s = DRAGGING \<and> targetItem s = Some r \<and> ordinary_state s \<and> ordinary_event e \<longrightarrow>
      mousemove e s =
        Inr (s\<lparr>heap := (heap s)(r := (heap s r)
               \<lparr>n_x := snap (js_minus (fst (getSVGCoords e s)) (fst (dragOffset s))),
                n_y := snap (js_minus (snd (getSVGCoords e s)) (snd (dragOffset s)))\<rparr>)\<rparr>)) \<and>
   (zoom s = 1 \<and> n_x (heap s r) = 320 \<and> n_y (heap s r) = 150 \<and>
    clientX e0 = of_int a \<and> clientY e0 = of_int b \<and>
    rectLeft e0 = of_int l \<and> rectTop e0 = of_int t \<and>
    \<bar>a\<bar> \<le> 2 ^ 40 \<and> \<bar>b\<bar> \<le> 2 ^ 40 \<and> \<bar>l\<bar> \<le> 2 ^ 40 \<and> \<bar>t\<bar> \<le> 2 ^ 40 \<and>
    clientX e1 = clientX e0 + 13 \<and> clientY e1 = clientY e0 + 27 \<and>
    rectLeft e1 = rectLeft e0 \<and> rectTop e1 = rectTop e0 \<longrightarrow>
      (\<exists>s'. mousemove e1 (startDragging e0 r s) = Inr s' \<and>
            n_x (heap s' r) = 330 \<and> n_y (heap s' r) = 180)) \<and>
   snap 333 = 330 \<and> snap 177 = 180 \<and> snap 335 = 340 \<and> snap (- 335) = - 330"
proof -
  have start: "dragOffset (startDragging e0 r s) =
     (js_minus (fst (getSVGCoords e0 s)) (n_x (heap s r)),
      js_minus (snd (getSVGCoords e0 s)) (n_y (heap s r)))"
    "mode (startDragging e0 r s) = DRAGGING" "targetItem (startDragging e0 r s) = Some r"
    "heap (startDragging e0 r s) = heap s" "zoom (startDragging e0 r s) = zoom s"
    by (simp_all add: startDragging_def case_prod_beta)
  have move: "mousemove e u =
        Inr (u\<lparr>heap := (heap u)(r := (heap u r)
               \<lparr>n_x := snap (js_minus (fst (getSVGCoords e u)) (fst (dragOffset u))),
                n_y := snap (js_minus (snd (getSVGCoords e u)) (snd (dragOffset u)))\<rparr>)\<rparr>)"
    if "mode u = DRAGGING" "targetItem u = Some r" for e u
    using that by (simp add: mousemove_def Let_def case_prod_beta)
  have scen: "\<exists>s'. mousemove e1 (startDragging e0 r s) = Inr s' \<and>
            n_x (heap s' r) = 330 \<and> n_y (heap s' r) = 180"
    if h: "zoom s = 1" "n_x (heap s r) = 320" "n_y (heap s r) = 150"
      "clientX e0 = of_int a" "clientY e0 = of_int b"
      "rectLeft e0 = of_int l" "rectTop e0 = of_int t"
      "\<bar>a\<bar> \<le> 2 ^ 40" "\<bar>b\<bar> \<le> 2 ^ 40" "\<bar>l\<bar> \<le> 2 ^ 40" "\<bar>t\<bar> \<le> 2 ^ 40"
      "clientX e1 = clientX e0 + 13" "clientY e1 = clientY e0 + 27"
      "rectLeft e1 = rectLeft e0" "rectTop e1 = rectTop e0"
  proof -
    let ?d = "startDragging e0 r s"
    have x: "js_minus (fst (getSVGCoords e1 ?d)) (fst (dragOffset ?d)) = 333"
      using drag_whole_numbers [of a l 320 13] h
      by (simp add: start getSVGCoords_def)
    have y: "js_minus (snd (getSVGCoords e1 ?d)) (snd (dragOffset ?d)) = 177"
      using drag_whole_numbers [of b t 150 27] h
      by (simp add: start getSVGCoords_def)
    show ?thesis
      by (simp add: move [OF start(2,3)] x y snap_values)
  qed
  from start move scen show ?thesis
    by (simp add: snap_values)
qed

theorem drag_move_snaps_position_witness:
  "zoom started = 1 \<and> n_x (heap started 0) = 320 \<and> n_y (heap started 0) = 150 \<and>
   (\<exists>s'. mousemove (at_origin 413 197) (startDragging (at_origin 400 170) 0 started) = Inr s' \<and>
      n_x (heap s' 0) = 330 \<and> n_y (heap s' 0) = 180) \<and>
   mode (startDragging (at_origin 565 216) 0 zoomed_in_twice) = DRAGGING \<and>
   targetItem (startDragging (at_origin 565 216) 0 zoomed_in_twice) = Some 0 \<and>
   ordinary_state (startDragging (at_origin 565 216) 0 zoomed_in_twice) \<and>
   ordinary_event (at_origin 745 288) \<and>
   (\<exists>s'. mousemove (at_origin 745 288) (startDragging (at_origin 565 216) 0 zoomed_in_twice) = Inr s' \<and>
      n_x (heap s' 0) = 440 \<and> n_y (heap s' 0) = 200)"
proof -
  let ?d = "startDragging (at_origin 565 216) 0 zoomed_in_twice"
  let ?e = "at_origin 745 288"
  note t1 = drag_move_snaps_position
    [of "at_origin 400 170" 0 started "at_origin 413 197" 400 170 0 0 "at_origin 413 197"]
  note t2 = drag_move_snaps_position [of "at_origin 565 216" 0 ?d ?e]
  have a: "\<exists>s'. mousemove (at_origin 413 197) (startDragging (at_origin 400 170) 0 started) = Inr s' \<and>
      n_x (heap s' 0) = 330 \<and> n_y (heap s' 0) = 180"
    using t1 by (simp add: started_store at_origin_sel)
  have m: "mode ?d = DRAGGING" "targetItem ?d = Some 0"
    by (simp_all add: startDragging_def case_prod_beta)
  have st: "nodes ?d = [0]" "heap ?d = heap started"
    "zoom ?d = 3242591731706757 / 2251799813685248"
    "dragOffset ?d =
       (js_minus (js_divide 565 (3242591731706757 / 2251799813685248)) 320,
        js_minus (js_divide 216 (3242591731706757 / 2251799813685248)) 150)"
    by (simp_all add: startDragging_def case_prod_beta getSVGCoords_def at_origin_sel
        zoom_values js_minus_zero fl_numeral)
      (simp_all add: zoomed_in_twice_def zoom_in_def started_store)
  have os: "ordinary_state ?d"
    using zoom_sizes(3,4) zoomed_values(5,6)
    by (simp add: ordinary_state_def ordinary_node_def m st started_store)
      (simp add: ordinary_def)
  have oe: "ordinary_event ?e"
    by (simp add: ordinary_at_origin ordinary_def)
  have v: "snap (js_minus (fst (getSVGCoords ?e ?d)) (fst (dragOffset ?d))) = 440"
    "snap (js_minus (snd (getSVGCoords ?e ?d)) (snd (dragOffset ?d))) = 200"
    by (simp_all add: getSVGCoords_def at_origin_sel st js_minus_zero fl_numeral zoomed_values)
  have "mousemove ?e ?d =
        Inr (?d\<lparr>heap := (heap ?d)(0 := (heap ?d 0)
               \<lparr>n_x := snap (js_minus (fst (getSVGCoords ?e ?d)) (fst (dragOffset ?d))),
                n_y := snap (js_minus (snd (getSVGCoords ?e ?d)) (snd (dragOffset ?d)))\<rparr>)\<rparr>)"
    using t2 m os oe by simp
  then have b: "\<exists>s'. mousemove ?e ?d = Inr s' \<and> n_x (heap s' 0) = 440 \<and> n_y (heap s' 0) = 200"
    by (simp add: v)
  from a b m os oe show ?thesis
    by (simp add: started_store)
qed

text \<open>
  Claim C7.  Every pointer move in mode \<open>RESIZING\<close>, with numbers of ordinary size, sets
  the width of the target to the larger of 80 and the snapped horizontal distance of the
  pointer from the node's origin, and the height to the larger of 40 and the snapped
  vertical distance; so the width is at least 80 and the height at least 40 after the
  move.
\<close>

theorem resize_move_keeps_minimum:
  assumes "mode s = RESIZING" and "targetItem s = Some r"
    and "ordinary_state s" and "ordinary_event e"
  shows "\<exists>s'. mousemove e s = Inr s' \<and>
           s' = s\<lparr>heap := (heap s)(r := (heap s r)
                  \<lparr>n_width := max 80 (snap (js_minus (fst (getSVGCoords e s)) (n_x (heap s r)))),
                   n_height := max 40 (snap (js_minus (snd (getSVGCoords e s)) (n_y (heap s r))))\<rparr>)\<rparr> \<and>
           80 \<le> n_width (heap s' r) \<and> 40 \<le> n_height (heap s' r)"
  using assms by (simp add: mousemove_def Let_def case_prod_beta)

theorem resize_move_keeps_minimum_witness:
  "mode (startResizing (at_origin 490 195) 0 started) = RESIZING \<and>
   targetItem (startResizing (at_origin 490 195) 0 started) = Some 0 \<and>
   ordinary_state (startResizing (at_origin 490 195) 0 started) \<and>
   ordinary_event (at_origin 330 160) \<and> ordinary_event (at_origin 533 247) \<and>
   (\<exists>s'. mousemove (at_origin 330 160) (startResizing (at_origin 490 195) 0 started) = Inr s' \<and>
      n_width (heap s' 0) = 80 \<and> n_height (heap s' 0) = 40) \<and>
   (\<exists>s'. mousemove (at_origin 533 247) (startResizing (at_origin 490 195) 0 started) = Inr s' \<and>
      n_width (heap s' 0) = 210 \<and> n_height (heap s' 0) = 100) \<and>
   mode (startResizing (at_origin 400 160) 0 zoomed_out) = RESIZING \<and>
   targetItem (startResizing (at_origin 400 160) 0 zoomed_out) = Some 0 \<and>
   ordinary_state (startResizing (at_origin 400 160) 0 zoomed_out) \<and>
   ordinary_event (at_origin 332 180) \<and>
   (\<exists>s'. mousemove (at_origin 332 180) (startResizing (at_origin 400 160) 0 zoomed_out) = Inr s' \<and>
      n_width (heap s' 0) = 100 \<and> n_height (heap s' 0) = 80)"
proof -
  let ?d = "startResizing (at_origin 490 195) 0 started"
  let ?z = "startResizing (at_origin 400 160) 0 zoomed_out"
  have m: "mode ?d = RESIZING" "targetItem ?d = Some 0"
    by (simp_all add: startResizing_def)
  have st: "heap ?d = heap started" "zoom ?d = 1" "nodes ?d = [0]" "dragOffset ?d = (0, 0)"
    by (simp_all add: startResizing_def started_store started_more)
  have os: "ordinary_state ?d"
    by (simp add: ordinary_state_def ordinary_node_def ordinary_def m st started_store)
  have oe: "ordinary_event (at_origin 330 160)" "ordinary_event (at_origin 533 247)"
    "ordinary_event (at_origin 332 180)"
    by (simp_all add: ordinary_at_origin ordinary_def)
  have a: "\<exists>s'. mousemove (at_origin 330 160) ?d = Inr s' \<and>
      n_width (heap s' 0) = 80 \<and> n_height (heap s' 0) = 40"
    using resize_move_keeps_minimum [OF m os oe(1)]
    by (simp add: st started_store getSVGCoords_def at_origin_sel whole_numbers snap_values)
  have b: "\<exists>s'. mousemove (at_origin 533 247) ?d = Inr s' \<and>
      n_width (heap s' 0) = 210 \<and> n_height (heap s' 0) = 100"
    using resize_move_keeps_minimum [OF m os oe(2)]
    by (simp add: st started_store getSVGCoords_def at_origin_sel whole_numbers snap_values)
  have mz: "mode ?z = RESIZING" "targetItem ?z = Some 0"
    by (simp_all add: startResizing_def)
  have sz: "heap ?z = heap started" "nodes ?z = [0]" "dragOffset ?z = (0, 0)"
    "zoom ?z = 3602879701896397 / 4503599627370496"
    by (simp_all add: startResizing_def zoom_values)
      (simp_all add: zoomed_out_def zoom_out_def started_store started_more)
  have oz: "ordinary_state ?z"
    using zoom_sizes(5,6)
    by (simp add: ordinary_state_def ordinary_node_def mz sz started_store)
      (simp add: ordinary_def)
  have v: "snap (js_minus (fst (getSVGCoords (at_origin 332 180) ?z)) (n_x (heap ?z 0))) = 100"
    "snap (js_minus (snd (getSVGCoords (at_origin 332 180) ?z)) (n_y (heap ?z 0))) = 80"
    by (simp_all add: getSVGCoords_def at_origin_sel sz started_store js_minus_zero fl_numeral
        zoomed_values)
  have c: "\<exists>s'. mousemove (at_origin 332 180) ?z = Inr s' \<and>
      n_width (heap s' 0) = 100 \<and> n_height (heap s' 0) = 80"
    using resize_move_keeps_minimum [OF mz oz oe(3)]
    by (simp add: v)
  from m os oe a b mz oz c show ?thesis
    by blast
qed

subsection \<open>Default labels\<close>

lemma created_label:
  "n_label (heap (snd (createNode up ty px py l now s)) (fst (createNode up ty px py l now s))) =
     (if falsy l then
        (case map_of spec_default_labels ty of
           Some d \<Rightarrow> d
         | None \<Rightarrow> up (take 1 ty) @ drop 1 ty)
      else the l)"
  by (simp add: createNode_def Let_def spec_default_labels_def capitalize_def split: prod.splits)

text \<open>
  Claim C10 as stated, that the label of the created node is never empty, fails for the
  empty type string, which the drop handler passes on when the dropped data carries no
  palette type: capitalizing the empty string gives the empty string.
\<close>

theorem createNode_empty_type_empty_label:
  "falsy None \<and>
   n_label (heap (snd (createNode toUpperCase_ascii [] 0 0 None 3000 started))
                 (fst (createNode toUpperCase_ascii [] 0 0 None 3000 started))) = []"
  by (simp add: created_label falsy_def spec_default_labels_def toUpperCase_ascii_def)

text \<open>
  Claim C10, amended.  For every type and position, \<^verbatim>\<open>createNode\<close> called with a missing
  or empty label gives the new node the fixed name of its type, or, for a type without
  one, the type string with its first code unit upper-cased by the host's
  \<^verbatim>\<open>toUpperCase\<close>.  As that built-in maps the empty string to itself and a string of one
  code unit to a non-empty string, the label is empty exactly when the type string is
  empty.
\<close>

theorem createNode_default_label:
  assumes "falsy l"
  shows "nodes (snd (createNode up ty px py l now s)) =
           nodes s @ [fst (createNode up ty px py l now s)] \<and>
         n_label (heap (snd (createNode up ty px py l now s))
                       (fst (createNode up ty px py l now s))) =
           (case map_of spec_default_labels ty of
              Some d \<Rightarrow> d
            | None \<Rightarrow> up (take 1 ty) @ drop 1 ty) \<and>
         (up [] = [] \<and> (\<forall>c. up [c] \<noteq> []) \<longrightarrow>
            (n_label (heap (snd (createNode up ty px py l now s))
                           (fst (createNode up ty px py l now s))) = []
               \<longleftrightarrow> ty = []))"
proof -
  have n: "nodes (snd (createNode up ty px py l now s)) =
      nodes s @ [fst (createNode up ty px py l now s)]"
    by (simp add: createNode_def Let_def split: prod.splits)
  have e: "up (take 1 ty) @ drop 1 ty = [] \<longleftrightarrow> ty = []"
    if "up [] = []" "\<forall>c. up [c] \<noteq> []"
    using that by (cases ty) simp_all
  from assms n e show ?thesis
    by (auto simp: created_label spec_default_labels_def split: option.splits if_splits)
qed

theorem createNode_default_label_witness:
  "falsy (Some []) \<and>
   n_label (heap (snd (createNode toUpperCase_ascii ''decision'' 0 0 (Some []) 3000 started))
                 (fst (createNode toUpperCase_ascii ''decision'' 0 0 (Some []) 3000 started)))
     = ''Decision'' \<and>
   falsy None \<and>
   n_label (heap (snd (createNode toUpperCase_ascii ''api'' 0 0 None 3000 started))
                 (fst (createNode toUpperCase_ascii ''api'' 0 0 None 3000 started)))
     = ''API Request'' \<and>
   toUpperCase_ascii [] = [] \<and>
   n_label (heap (snd (createNode toUpperCase_ascii ''x'' 0 0 None 3000 started))
                 (fst (createNode toUpperCase_ascii ''x'' 0 0 None 3000 started))) \<noteq> []"
proof -
  have u: "toUpperCase_ascii [] = []" "\<forall>c. toUpperCase_ascii [c] \<noteq> []"
    by (simp_all add: toUpperCase_ascii_def)
  from createNode_default_label [of "Some []" toUpperCase_ascii "''decision''" 0 0 3000 started]
    createNode_default_label [of None toUpperCase_ascii "''api''" 0 0 3000 started]
    createNode_default_label [of None toUpperCase_ascii "''x''" 0 0 3000 started] u
  show ?thesis
    by (simp add: falsy_def spec_default_labels_def toUpperCase_ascii_def)
qed


end
